theory Spec2Isabelle
  imports Main "HOL-Library.Word" "HOL-Library.Signed_Division"
begin

unbundle bit_operations_syntax

section \<open>The machine as the loader sees it\<close>

text \<open>
  The loader (\<^verbatim>\<open>src/main.c\<close>) runs on a 32-bit big-endian MIPS core. Pointers are
  32-bit values and pointer arithmetic wraps, so addresses are \<open>32 word\<close> and the
  memory reached through pointers is a total store of bytes. A 32-bit field is read
  most significant byte first.

  What is kept outside the store: the three scalars \<^verbatim>\<open>kernelsize\<close>,
  \<^verbatim>\<open>disksize\<close> and \<^verbatim>\<open>diskoff\<close>, which the source names directly, and the
  loader's own code, stack and formatting buffer \<^verbatim>\<open>buf\<close>. The header buffer
  \<^verbatim>\<open>hdrbuf\<close> is inside the store, at an address chosen by the linker, because
  the source reads it through the pointers \<^verbatim>\<open>ptr\<close> and \<^verbatim>\<open>phdr\<close> again
  after it has written to memory. Caches are not modelled: the store is coherent, and
  the cache maintenance calls only appear in the trace. Every address is ordinary
  memory: device regions and the address errors of the processor (a 32-bit read at an
  address that is not a multiple of 4) are not modelled either.
\<close>

type_synonym u8 = "8 word"
type_synonym u32 = "32 word"
type_synonym memory = "u32 \<Rightarrow> u8"

definition load32 :: "memory \<Rightarrow> u32 \<Rightarrow> u32" where
  "load32 m a =
     push_bit 24 (ucast (m a)) OR push_bit 16 (ucast (m (a + 1))) OR
     push_bit 8 (ucast (m (a + 2))) OR ucast (m (a + 3))"

text \<open>Fields of \<^verbatim>\<open>Elf32_Ehdr\<close> and \<^verbatim>\<open>Elf32_Phdr\<close> at their struct offsets.\<close>

definition e_ident :: "memory \<Rightarrow> u32 \<Rightarrow> nat \<Rightarrow> u8" where
  "e_ident m h i = m (h + of_nat i)"

definition e_entry :: "memory \<Rightarrow> u32 \<Rightarrow> u32" where
  "e_entry m h = load32 m (h + 24)"

definition e_phoff :: "memory \<Rightarrow> u32 \<Rightarrow> u32" where
  "e_phoff m h = load32 m (h + 28)"

definition p_type :: "memory \<Rightarrow> u32 \<Rightarrow> u32" where
  "p_type m p = load32 m p"

definition p_offset :: "memory \<Rightarrow> u32 \<Rightarrow> u32" where
  "p_offset m p = load32 m (p + 4)"

definition p_paddr :: "memory \<Rightarrow> u32 \<Rightarrow> u32" where
  "p_paddr m p = load32 m (p + 12)"

definition p_filesz :: "memory \<Rightarrow> u32 \<Rightarrow> u32" where
  "p_filesz m p = load32 m (p + 16)"

definition p_memsz :: "memory \<Rightarrow> u32 \<Rightarrow> u32" where
  "p_memsz m p = load32 m (p + 20)"

definition EI_CLASS :: nat where
  "EI_CLASS = 4"

definition ELFCLASS32 :: u8 where
  "ELFCLASS32 = 1"

text \<open>\<^verbatim>\<open>sizeof(Elf32_Phdr)\<close>: eight 32-bit fields.\<close>

definition sizeof_Phdr :: u32 where
  "sizeof_Phdr = 32"

subsection \<open>Library calls\<close>

text \<open>
  \<^verbatim>\<open>dma_read\<close>, \<^verbatim>\<open>memset\<close> and \<^verbatim>\<open>sprintf\<close> are calls into libdragon and the C
  library. Each is modelled by its documented contract.

  \<^verbatim>\<open>dma_read(ram_address, pi_address, len)\<close> reads \<open>len\<close> bytes from the peripheral
  address into the buffer: the bytes written are those at \<open>dst + i\<close> for \<open>i < len\<close>,
  and byte \<open>dst + i\<close> receives the cartridge byte at \<open>src + i\<close>.
\<close>

definition dma_read :: "memory \<Rightarrow> memory \<Rightarrow> u32 \<Rightarrow> u32 \<Rightarrow> u32 \<Rightarrow> memory" where
  "dma_read cart m dst src len = (\<lambda>a. if a - dst < len then cart (src + (a - dst)) else m a)"

text \<open>C's \<^verbatim>\<open>memset(p, c, n)\<close>: the \<open>n\<close> bytes from \<open>p\<close> on become \<open>c\<close>.\<close>

definition memset :: "memory \<Rightarrow> u32 \<Rightarrow> u8 \<Rightarrow> u32 \<Rightarrow> memory" where
  "memset m p c n = (\<lambda>a. if a - p < n then c else m a)"

text \<open>Decimal rendering of an unsigned value, as \<^verbatim>\<open>%u\<close> prints it.\<close>

definition digit :: "nat \<Rightarrow> char" where
  "digit d = char_of (of_char CHR ''0'' + d)"

function dec :: "nat \<Rightarrow> string" where
  "dec n = (if n < 10 then [digit n] else dec (n div 10) @ [digit (n mod 10)])"
  by pat_completeness auto
termination
  by (relation "measure id") auto

declare dec.simps [simp del]

text \<open>
  \<^verbatim>\<open>sprintf\<close> restricted to what the loader's buffer writes use: ordinary characters
  are copied and each \<^verbatim>\<open>%u\<close> consumes one 32-bit argument. A conversion without
  an argument is undefined in C; the model copies it unchanged.
\<close>

fun format :: "string \<Rightarrow> u32 list \<Rightarrow> string" where
  "format [] vs = []"
| "format [c] vs = [c]"
| "format (c # d # cs) vs =
     (if c = CHR ''%'' \<and> d = CHR ''u'' then
        (case vs of
           [] \<Rightarrow> c # d # format cs []
         | v # vs' \<Rightarrow> dec (unat v) @ format cs vs')
      else c # format (d # cs) vs)"

definition byte :: "char \<Rightarrow> u8" where
  "byte c = of_nat (of_char c)"

definition store_bytes :: "memory \<Rightarrow> u32 \<Rightarrow> u8 list \<Rightarrow> memory" where
  "store_bytes m dst bs =
     (\<lambda>a. if unat (a - dst) < length bs then bs ! unat (a - dst) else m a)"

text \<open>The formatted text followed by its terminating NUL, written at \<open>dst\<close>.\<close>

definition sprintf :: "memory \<Rightarrow> u32 \<Rightarrow> string \<Rightarrow> u32 list \<Rightarrow> memory" where
  "sprintf m dst fmt vs = store_bytes m dst (map byte (format fmt vs) @ [0])"

section \<open>The loader's state and what it does to the outside\<close>

text \<open>
  What the linker and the board fix before \<^verbatim>\<open>main\<close> runs: the address of
  \<^verbatim>\<open>hdrbuf\<close>, the contents of the cartridge address space, whether the debug
  sideband answers the probe of \<^verbatim>\<open>isviewer_init\<close>, and the memory size word.
\<close>

record board =
  hdrbuf :: u32
  cart :: memory
  isviewer :: bool
  osMemSize :: int

text \<open>
  Calls whose effect leaves the store are recorded in a trace, in program order, with
  the arguments the source passes. A pointer argument is either one of the two size
  variables or an address. The triple \<^verbatim>\<open>sprintf(buf, fmt, ...); printf(buf);
  isviewer_write(buf, bufl)\<close> is one \<open>Log\<close> entry holding the format and its
  arguments (the rendering of \<^verbatim>\<open>%p\<close> is left to the C library).
\<close>

datatype place = KernelSize | DiskSize | At u32

datatype event =
    ConsoleInit
  | ConsoleSetRenderMode
  | Log string "u32 list"
  | Print string
  | PrintString u32
  | ViewerWrite u32 u32
  | CacheWritebackInvalidate place u32
  | CacheInvalidate place u32
  | Dma place u32 u32
  | ConsoleRender
  | WaitMs u32
  | DisableInterrupts
  | SetVIInterrupt u32 u32

record loader =
  ram :: memory
  kernelsize :: u32
  disksize :: u32
  diskoff :: u32
  trace :: "event list"

definition emit :: "event list \<Rightarrow> loader \<Rightarrow> loader" where
  "emit es s = s\<lparr>trace := trace s @ es\<rparr>"

text \<open>The kernel's entry is called with four arguments; the call does not return.\<close>

datatype cptr = Str string | Ptr u32 | Null

record call =
  entry :: u32
  argc :: int
  argv :: "cptr list"
  envp :: "cptr list"
  reserved :: cptr

datatype outcome = Halt loader | Transfer loader call

section \<open>\<^verbatim>\<open>main\<close>, step by step\<close>

text \<open>The base of the image in the cartridge address space.\<close>

definition image_base :: u32 where
  "image_base = 0xB0101000"

text \<open>Lines 165 to 179: console set-up, the sideband probe and the memory report.\<close>

definition init :: "board \<Rightarrow> memory \<Rightarrow> loader" where
  "init b m =
     \<lparr>ram = m, kernelsize = 0, disksize = 0, diskoff = 0,
      trace = [ConsoleInit, ConsoleSetRenderMode]
        @ (if isviewer b then [Log ''Detected IS Viewer-64\<newline>'' []] else [])
        @ [Log ''Found %u kb of RAM\<newline>'' [word_of_int (osMemSize b sdiv 1024)]]\<rparr>"

text \<open>Lines 181 to 187: the two size words in front of the image, and the disk offset.\<close>

definition read_sizes :: "board \<Rightarrow> loader \<Rightarrow> loader" where
  "read_sizes b s =
     (let s1 = emit [CacheWritebackInvalidate KernelSize 4, Dma KernelSize (image_base - 4) 4]
                 (s\<lparr>kernelsize := load32 (cart b) (image_base - 4)\<rparr>);
          s2 = emit [CacheWritebackInvalidate DiskSize 4, Dma DiskSize (image_base - 8) 4]
                 (s1\<lparr>disksize := load32 (cart b) (image_base - 8)\<rparr>)
      in s2\<lparr>diskoff := (kernelsize s2 + 4095) AND NOT 4095\<rparr>)"

text \<open>Lines 196 to 207: the two report lines and the transfer of the first 256 bytes.\<close>

definition load_header :: "board \<Rightarrow> loader \<Rightarrow> loader" where
  "load_header b s =
     (let s1 = emit [Log ''Booting kernel %u kb, %u kb\<newline>''
                       [kernelsize s div 1024, disksize s div 1024],
                     Log ''Address: %p\<newline>'' [hdrbuf b]] s
      in emit [Dma (At (hdrbuf b)) image_base 256, CacheInvalidate (At (hdrbuf b)) 256]
           (s1\<lparr>ram := dma_read (cart b) (ram s1) (hdrbuf b) image_base 256\<rparr>))"

text \<open>Lines 209 to 215: the two checks, each printing a line and nothing more.\<close>

definition validate :: "board \<Rightarrow> loader \<Rightarrow> event list" where
  "validate b s =
     (if e_ident (ram s) (hdrbuf b) 1 \<noteq> byte CHR ''E'' \<or>
         e_ident (ram s) (hdrbuf b) 2 \<noteq> byte CHR ''L'' \<or>
         e_ident (ram s) (hdrbuf b) 3 \<noteq> byte CHR ''F''
      then [Print ''Not an ELF kernel?\<newline>''] else [])
     @ (if e_ident (ram s) (hdrbuf b) EI_CLASS \<noteq> ELFCLASS32
        then [Print ''Not a 32-bit kernel?\<newline>''] else [])"

text \<open>
  Lines 218 to 220: \<^verbatim>\<open>while (phdr->p_type != 1) phdr++;\<close>. The loop has no bound;
  \<open>None\<close> is the run in which it never ends.
\<close>

partial_function (option) scan :: "memory \<Rightarrow> u32 \<Rightarrow> u32 option" where
  "scan m phdr = (if p_type m phdr \<noteq> 1 then scan m (phdr + sizeof_Phdr) else Some phdr)"

definition locate_segment :: "board \<Rightarrow> loader \<Rightarrow> u32 option" where
  "locate_segment b s = scan (ram s) (hdrbuf b + e_phoff (ram s) (hdrbuf b))"

text \<open>Lines 222 to 228.\<close>

definition report_segment :: "u32 \<Rightarrow> loader \<Rightarrow> loader" where
  "report_segment phdr s =
     emit [Log ''LoadAddress: %p\<newline>'' [p_paddr (ram s) phdr],
           Log ''LoadOffset: %p\<newline>'' [image_base + p_offset (ram s) phdr]] s"

text \<open>
  Lines 231 to 240: transfer, cache maintenance, zero fill. Every \<^verbatim>\<open>phdr->\<close>
  is a read of the store as it is at that statement.
\<close>

definition load_segment :: "board \<Rightarrow> u32 \<Rightarrow> loader \<Rightarrow> loader" where
  "load_segment b phdr s =
     (let s1 = emit [Dma (At (p_paddr (ram s) phdr)) (image_base + p_offset (ram s) phdr)
                       ((p_filesz (ram s) phdr + 1) AND NOT 1)]
                 (s\<lparr>ram := dma_read (cart b) (ram s) (p_paddr (ram s) phdr)
                              (image_base + p_offset (ram s) phdr)
                              ((p_filesz (ram s) phdr + 1) AND NOT 1)\<rparr>);
          s2 = emit [CacheWritebackInvalidate (At (p_paddr (ram s1) phdr))
                       ((p_filesz (ram s1) phdr + 3) AND NOT 3)] s1
      in if p_filesz (ram s2) phdr < p_memsz (ram s2) phdr
         then s2\<lparr>ram := memset (ram s2) (p_paddr (ram s2) phdr + p_filesz (ram s2) phdr) 0
                           (p_memsz (ram s2) phdr - p_filesz (ram s2) phdr)\<rparr>
         else s2)"

text \<open>Lines 242 to 246: the entry address is read before the buffer is reused.\<close>

definition read_entry :: "board \<Rightarrow> loader \<Rightarrow> u32 \<times> loader" where
  "read_entry b s =
     (e_entry (ram s) (hdrbuf b), emit [Log ''Entry: %p\<newline>'' [e_entry (ram s) (hdrbuf b)]] s)"

text \<open>Lines 249 to 260: the buffer is cleared and receives the two records.\<close>

definition write_metadata :: "board \<Rightarrow> loader \<Rightarrow> loader" where
  "write_metadata b s =
     (let m0 = memset (ram s) (hdrbuf b) 0 256;
          m1 = sprintf m0 (hdrbuf b) ''n64cart.start=%u'' [image_base + diskoff s];
          m2 = sprintf m1 (hdrbuf b + 128) ''n64cart.size=%u'' [disksize s]
      in emit [Log ''Disk: %u\<newline>'' [diskoff s],
               PrintString (hdrbuf b), PrintString (hdrbuf b + 128),
               ViewerWrite (hdrbuf b) 256]
           (s\<lparr>ram := m2\<rparr>))"

text \<open>Lines 147 to 153: the two constant tables.\<close>

definition args :: "board \<Rightarrow> cptr list" where
  "args b = [Str ''hello'', Ptr (hdrbuf b), Ptr (hdrbuf b + 128), Str ''root=/dev/n64cart'']"

definition env :: "cptr list" where
  "env = [Null]"

text \<open>Lines 262 to 272.\<close>

definition transfer :: "board \<Rightarrow> u32 \<Rightarrow> loader \<Rightarrow> outcome" where
  "transfer b funcptr s =
     Transfer
       (emit [Log ''Jumping: %p\<newline>'' [funcptr], ConsoleRender, WaitMs 1024,
              DisableInterrupts, SetVIInterrupt 0 0] s)
       \<lparr>entry = funcptr, argc = int (length (args b)), argv = args b, envp = env,
        reserved = Null\<rparr>"

text \<open>Everything after the header checks, given the descriptor the scan stopped at.\<close>

definition boot_segment :: "board \<Rightarrow> u32 \<Rightarrow> loader \<Rightarrow> outcome" where
  "boot_segment b phdr s =
     (let s1 = load_segment b phdr (report_segment phdr s);
          (funcptr, s2) = read_entry b s1
      in transfer b funcptr (write_metadata b s2))"

definition no_kernel :: string where
  "no_kernel = ''No kernel configured\<newline>''"

definition boot :: "board \<Rightarrow> memory \<Rightarrow> outcome option" where
  "boot b m =
     (let s = read_sizes b (init b m)
      in if kernelsize s = 0 then Some (Halt (emit [Print no_kernel] s))
         else
           (let s1 = load_header b s;
                s2 = emit (validate b s1) s1
            in case locate_segment b s2 of
                 None \<Rightarrow> None
               | Some phdr \<Rightarrow> Some (boot_segment b phdr s2)))"

subsection \<open>Points of the run that the statements below refer to\<close>

text \<open>The state in which the header is checked: sizes read, header in the buffer.\<close>

definition header_loaded :: "board \<Rightarrow> memory \<Rightarrow> loader" where
  "header_loaded b m = load_header b (read_sizes b (init b m))"

text \<open>
  The store as \<open>load_segment\<close> leaves it after the transfer at line 231, before the
  descriptor is read again at lines 233 and 236.
\<close>

definition after_transfer :: "board \<Rightarrow> u32 \<Rightarrow> loader \<Rightarrow> memory" where
  "after_transfer b phdr s =
     dma_read (cart b) (ram s) (p_paddr (ram s) phdr) (image_base + p_offset (ram s) phdr)
       ((p_filesz (ram s) phdr + 1) AND NOT 1)"

text \<open>The text of the two records, without the terminating NUL.\<close>

definition start_record :: "loader \<Rightarrow> string" where
  "start_record s = ''n64cart.start='' @ dec (unat (image_base + diskoff s))"

definition size_record :: "loader \<Rightarrow> string" where
  "size_record s = ''n64cart.size='' @ dec (unat (disksize s))"

section \<open>Reading the records back\<close>

text \<open>
  The consumer of the two records is the booted kernel, which is not part of this
  repository. What it has to do is fixed by the format: take the NUL-terminated string
  in the slot, check the key, and read the decimal digits that follow.
\<close>

definition chr :: "u8 \<Rightarrow> char" where
  "chr x = char_of (unat x)"

definition c_string :: "memory \<Rightarrow> u32 \<Rightarrow> string" where
  "c_string m p = map chr (takeWhile (\<lambda>x. x \<noteq> 0) (map (\<lambda>i. m (p + of_nat i)) [0..<128]))"

definition is_digit :: "char \<Rightarrow> bool" where
  "is_digit c = (of_char CHR ''0'' \<le> (of_char c :: nat) \<and> (of_char c :: nat) \<le> of_char CHR ''9'')"




section \<open>The packaging tool \<^verbatim>\<open>util/size2bin.c\<close>\<close>


datatype host_order = LittleEndian | BigEndian


definition bswap_32 :: "u32 \<Rightarrow> u32" where
  "bswap_32 x =
     drop_bit 24 (x AND 0xFF000000) OR drop_bit 8 (x AND 0x00FF0000) OR
     push_bit 8 (x AND 0x0000FF00) OR push_bit 24 (x AND 0x000000FF)"

fun object_bytes :: "host_order \<Rightarrow> u32 \<Rightarrow> u8 list" where
  "object_bytes BigEndian x =
     [ucast (drop_bit 24 x), ucast (drop_bit 16 x), ucast (drop_bit 8 x), ucast x]"
| "object_bytes LittleEndian x =
     [ucast x, ucast (drop_bit 8 x), ucast (drop_bit 16 x), ucast (drop_bit 24 x)]"






section \<open>Concrete cartridges\<close>

text \<open>The store before \<^verbatim>\<open>main\<close> runs, all zero.\<close>

definition blank_ram :: memory where
  "blank_ram = (\<lambda>a. 0)"

text \<open>A cartridge on which nothing was configured: every byte reads 0.\<close>

definition blank_board :: board where
  "blank_board =
     \<lparr>hdrbuf = 0x80010000, cart = (\<lambda>a. 0), isviewer = True, osMemSize = 8388608\<rparr>"

text \<open>A cartridge given by the bytes found from \<open>base\<close> on; every other byte reads 0.\<close>

definition image_of :: "u32 \<Rightarrow> u8 list \<Rightarrow> memory" where
  "image_of base bs = (\<lambda>a. if unat (a - base) < length bs then bs ! unat (a - base) else 0)"

text \<open>
  A well-formed one. In front of the image: disk size 65536 and kernel size 5000. The
  header names a program header table at offset 52 with two entries, of type 6 and of
  type 1. The second places 5 bytes from file offset 128 at \<open>0x80101000\<close> and asks for
  12 bytes of memory; the byte after the 5 is \<open>0x99\<close>. The entry point is \<open>0x80101000\<close>.
\<close>

definition sample_bytes :: "u8 list" where
  "sample_bytes =
     [0x00, 0x01, 0x00, 0x00,  0x00, 0x00, 0x13, 0x88,
      0x7F, 0x45, 0x4C, 0x46,  0x01, 0x02, 0x01, 0x00,
      0x00, 0x00, 0x00, 0x00,  0x00, 0x00, 0x00, 0x00,
      0x00, 0x02, 0x00, 0x08,  0x00, 0x00, 0x00, 0x01,
      0x80, 0x10, 0x10, 0x00,  0x00, 0x00, 0x00, 0x34,
      0x00, 0x00, 0x00, 0x00,  0x00, 0x00, 0x00, 0x00,
      0x00, 0x34, 0x00, 0x20,  0x00, 0x02, 0x00, 0x00,
      0x00, 0x00, 0x00, 0x00,
      0x00, 0x00, 0x00, 0x06,  0x00, 0x00, 0x00, 0x34,
      0x80, 0x10, 0x00, 0x34,  0x80, 0x10, 0x00, 0x34,
      0x00, 0x00, 0x00, 0x40,  0x00, 0x00, 0x00, 0x40,
      0x00, 0x00, 0x00, 0x04,  0x00, 0x00, 0x00, 0x04,
      0x00, 0x00, 0x00, 0x01,  0x00, 0x00, 0x00, 0x80,
      0x80, 0x10, 0x10, 0x00,  0x80, 0x10, 0x10, 0x00,
      0x00, 0x00, 0x00, 0x05,  0x00, 0x00, 0x00, 0x0C,
      0x00, 0x00, 0x00, 0x07,  0x00, 0x00, 0x10, 0x00,
      0x00, 0x00, 0x00, 0x00,  0x00, 0x00, 0x00, 0x00,
      0x00, 0x00, 0x00, 0x00,
      0xDE, 0xAD, 0xBE, 0xEF,  0x01, 0x99]"

definition sample_board :: board where
  "sample_board =
     \<lparr>hdrbuf = 0x80010000, cart = image_of (image_base - 8) sample_bytes,
      isviewer = False, osMemSize = 4194304\<rparr>"

text \<open>The same image with \<open>X\<close> in place of \<open>E\<close> in the identification bytes.\<close>

definition xlf_board :: board where
  "xlf_board = sample_board\<lparr>cart := image_of (image_base - 8) (sample_bytes[9 := 0x58])\<rparr>"

text \<open>The same image again, with a file size of \<open>0xFFFFFFFF\<close> in the second descriptor.\<close>

definition huge_board :: board where
  "huge_board =
     sample_board\<lparr>cart := image_of (image_base - 8)
       (sample_bytes[108 := 0xFF, 109 := 0xFF, 110 := 0xFF, 111 := 0xFF])\<rparr>"

text \<open>
  One whose only segment is placed on its own descriptor: the table is at offset 52,
  its first entry has type 1, file offset \<open>0x1000\<close>, target \<open>0x80010034\<close> (the
  address of this entry when the header buffer is at \<open>0x80010000\<close>), 24 bytes in the
  file, 32 in memory, flags 5 and alignment \<open>0x1000\<close>. The file is all zero from
  offset 84 on.
\<close>

definition overlap_bytes :: "u8 list" where
  "overlap_bytes =
     [0x00, 0x01, 0x00, 0x00,  0x00, 0x00, 0x13, 0x88,
      0x7F, 0x45, 0x4C, 0x46,  0x01, 0x02, 0x01, 0x00,
      0x00, 0x00, 0x00, 0x00,  0x00, 0x00, 0x00, 0x00,
      0x00, 0x02, 0x00, 0x08,  0x00, 0x00, 0x00, 0x01,
      0x80, 0x10, 0x10, 0x00,  0x00, 0x00, 0x00, 0x34,
      0x00, 0x00, 0x00, 0x00,  0x00, 0x00, 0x00, 0x00,
      0x00, 0x34, 0x00, 0x20,  0x00, 0x01, 0x00, 0x00,
      0x00, 0x00, 0x00, 0x00,
      0x00, 0x00, 0x00, 0x01,  0x00, 0x00, 0x10, 0x00,
      0x80, 0x01, 0x00, 0x34,  0x80, 0x01, 0x00, 0x34,
      0x00, 0x00, 0x00, 0x18,  0x00, 0x00, 0x00, 0x20,
      0x00, 0x00, 0x00, 0x05,  0x00, 0x00, 0x10, 0x00]"

definition overlap_board :: board where
  "overlap_board =
     \<lparr>hdrbuf = 0x80010000, cart = image_of (image_base - 8) overlap_bytes,
      isviewer = False, osMemSize = 4194304\<rparr>"

section \<open>Rounding in 32-bit arithmetic\<close>

text \<open>Clearing the low \<open>n\<close> bits rounds down to a multiple of \<open>2 ^ n\<close>.\<close>

lemma and_not_mask_eq: "(w :: 'a::len word) AND NOT (mask n) = push_bit n (drop_bit n w)"
  by (rule bit_eqI) (auto simp: bit_simps)

lemma unat_round_down: "unat ((w :: 'a::len word) AND NOT (mask n)) = unat w div 2 ^ n * 2 ^ n"
proof -
  have le: "unat w div 2 ^ n * 2 ^ n \<le> unat w" by simp
  have "unat w < 2 ^ LENGTH('a)" by simp
  with le have lt: "unat w div 2 ^ n * 2 ^ n < 2 ^ LENGTH('a)" by linarith
  have "unat (push_bit n (drop_bit n w)) = take_bit LENGTH('a) (push_bit n (unat (drop_bit n w)))"
    by (simp add: unsigned_push_bit_eq)
  also have "\<dots> = take_bit LENGTH('a) (unat w div 2 ^ n * 2 ^ n)"
    unfolding unat_drop_bit_eq by (simp add: push_bit_eq_mult drop_bit_eq_div mult.commute)
  also have "\<dots> = unat w div 2 ^ n * 2 ^ n"
    using lt by (simp add: take_bit_nat_eq_self)
  finally show ?thesis by (simp add: and_not_mask_eq)
qed

lemma round_up_mod:
  fixes x :: nat
  assumes "0 < k" "k dvd m"
  shows "(x mod m) div k * k = (x div k * k) mod m"
proof -
  from assms obtain q where m: "m = k * q" by (auto simp: dvd_def)
  have "(x mod (k * q)) div k = (x div k) mod q"
    by (simp add: mod_mult2_eq assms(1))
  then show ?thesis
    by (simp add: m mult.commute)
qed

lemma mask_numerals: "(4095 :: u32) = mask 12" "(3 :: u32) = mask 2" "(1 :: u32) = mask 1"
  by (simp_all add: mask_eq_exp_minus_1)

lemma unat_align_4096:
  "unat (((x::u32) + 4095) AND NOT 4095) = ((unat x + 4095) div 4096 * 4096) mod 2 ^ 32"
proof -
  have "unat ((x + 4095) AND NOT 4095) = unat (x + 4095) div 4096 * 4096"
    unfolding mask_numerals(1) unat_round_down by simp
  also have "unat (x + 4095) = (unat x + 4095) mod 2 ^ 32"
    by (simp add: unat_word_ariths)
  also have "((unat x + 4095) mod 2 ^ 32) div 4096 * 4096 = ((unat x + 4095) div 4096 * 4096) mod 2 ^ 32"
    by (rule round_up_mod) simp_all
  finally show ?thesis .
qed

lemma unat_align_4096_exact:
  fixes x :: u32
  assumes "unat x \<le> 4294963200"
  shows "unat ((x + 4095) AND NOT 4095) = (unat x + 4095) div 4096 * 4096"
    and "unat x \<le> unat ((x + 4095) AND NOT 4095)"
    and "unat ((x + 4095) AND NOT 4095) < unat x + 4096"
proof -
  define y where "y = unat x + 4095"
  have split: "y div 4096 * 4096 + y mod 4096 = y" by simp
  have rest: "y mod 4096 < 4096" by simp
  from split have "y div 4096 * 4096 \<le> y" by linarith
  with assms have "y div 4096 * 4096 < 2 ^ 32" by (simp add: y_def)
  then have "(y div 4096 * 4096) mod 2 ^ 32 = y div 4096 * 4096"
    by (rule mod_less)
  then have eq: "unat ((x + 4095) AND NOT 4095) = y div 4096 * 4096"
    unfolding y_def by (simp only: unat_align_4096)
  then show "unat ((x + 4095) AND NOT 4095) = (unat x + 4095) div 4096 * 4096"
    by (simp only: y_def)
  from split rest show "unat x \<le> unat ((x + 4095) AND NOT 4095)"
    unfolding eq y_def by linarith
  from split rest show "unat ((x + 4095) AND NOT 4095) < unat x + 4096"
    unfolding eq y_def by linarith
qed

lemma unat_align_2:
  "unat (((x::u32) + 1) AND NOT 1) = ((unat x + 1) div 2 * 2) mod 2 ^ 32"
proof -
  have "unat ((x + 1) AND NOT (mask 1)) = unat (x + 1) div 2 * 2"
    unfolding unat_round_down by simp
  also have "unat (x + 1) = (unat x + 1) mod 2 ^ 32"
    by (simp add: unat_word_ariths)
  also have "((unat x + 1) mod 2 ^ 32) div 2 * 2 = ((unat x + 1) div 2 * 2) mod 2 ^ 32"
    by (rule round_up_mod) simp_all
  finally show ?thesis by (simp add: mask_numerals(3) [symmetric])
qed

lemma unat_align_4:
  "unat (((x::u32) + 3) AND NOT 3) = ((unat x + 3) div 4 * 4) mod 2 ^ 32"
proof -
  have "unat ((x + 3) AND NOT 3) = unat (x + 3) div 4 * 4"
    unfolding mask_numerals(2) unat_round_down by simp
  also have "unat (x + 3) = (unat x + 3) mod 2 ^ 32"
    by (simp add: unat_word_ariths)
  also have "((unat x + 3) mod 2 ^ 32) div 4 * 4 = ((unat x + 3) div 4 * 4) mod 2 ^ 32"
    by (rule round_up_mod) simp_all
  finally show ?thesis .
qed

section \<open>The size words and the disk offset\<close>

lemma kernelsize_read_sizes: "kernelsize (read_sizes b s) = load32 (cart b) (image_base - 4)"
  by (simp add: read_sizes_def emit_def Let_def)

lemma diskoff_read_sizes:
  "diskoff (read_sizes b s) = (load32 (cart b) (image_base - 4) + 4095) AND NOT 4095"
  by (simp add: read_sizes_def emit_def Let_def)

text \<open>
  C2. The disk offset is the kernel size plus 4095 with the low twelve bits cleared, in
  32-bit unsigned arithmetic: the kernel size rounded up to a multiple of 4096, reduced
  modulo \<open>2 ^ 32\<close>. For kernel sizes up to \<open>0xFFFFF000\<close> nothing wraps, and the disk
  offset is the least multiple of 4096 that is not below the kernel size. A kernel size
  of 5000 gives 8192.
\<close>

theorem diskoff_is_aligned_kernelsize:
  "kernelsize (read_sizes b s) = load32 (cart b) (image_base - 4) \<and>
   diskoff (read_sizes b s) = (kernelsize (read_sizes b s) + 4095) AND NOT 4095 \<and>
   unat (diskoff (read_sizes b s)) =
     ((unat (kernelsize (read_sizes b s)) + 4095) div 4096 * 4096) mod 2 ^ 32 \<and>
   (unat (kernelsize (read_sizes b s)) \<le> 4294963200 \<longrightarrow>
      4096 dvd unat (diskoff (read_sizes b s)) \<and>
      unat (kernelsize (read_sizes b s)) \<le> unat (diskoff (read_sizes b s)) \<and>
      unat (diskoff (read_sizes b s)) < unat (kernelsize (read_sizes b s)) + 4096) \<and>
   (kernelsize (read_sizes b s) = 5000 \<longrightarrow> diskoff (read_sizes b s) = 8192)"
proof (intro conjI impI)
  show "kernelsize (read_sizes b s) = load32 (cart b) (image_base - 4)"
    by (rule kernelsize_read_sizes)
  show "diskoff (read_sizes b s) = (kernelsize (read_sizes b s) + 4095) AND NOT 4095"
    unfolding kernelsize_read_sizes by (rule diskoff_read_sizes)
  show "unat (diskoff (read_sizes b s)) =
     ((unat (kernelsize (read_sizes b s)) + 4095) div 4096 * 4096) mod 2 ^ 32"
    unfolding kernelsize_read_sizes diskoff_read_sizes by (rule unat_align_4096)
  show "diskoff (read_sizes b s) = 8192" if "kernelsize (read_sizes b s) = 5000"
    using that unfolding kernelsize_read_sizes diskoff_read_sizes by simp
next
  assume small: "unat (kernelsize (read_sizes b s)) \<le> 4294963200"
  then have small': "unat (load32 (cart b) (image_base - 4)) \<le> 4294963200"
    by (simp only: kernelsize_read_sizes)
  show "4096 dvd unat (diskoff (read_sizes b s))"
    unfolding diskoff_read_sizes unat_align_4096_exact(1) [OF small'] by simp
  show "unat (kernelsize (read_sizes b s)) \<le> unat (diskoff (read_sizes b s))"
    unfolding kernelsize_read_sizes diskoff_read_sizes by (rule unat_align_4096_exact(2) [OF small'])
  show "unat (diskoff (read_sizes b s)) < unat (kernelsize (read_sizes b s)) + 4096"
    unfolding kernelsize_read_sizes diskoff_read_sizes by (rule unat_align_4096_exact(3) [OF small'])
qed

text \<open>On the sample cartridge the kernel size word is 5000.\<close>

lemma load32_sample_kernelsize: "load32 (cart sample_board) (image_base - 4) = 5000"
  by (simp add: sample_board_def image_of_def sample_bytes_def load32_def image_base_def)

theorem diskoff_is_aligned_kernelsize_witness:
  "kernelsize (read_sizes sample_board (init sample_board blank_ram)) = 5000 \<and>
   diskoff (read_sizes sample_board (init sample_board blank_ram)) = 8192"
  using diskoff_is_aligned_kernelsize [of sample_board "init sample_board blank_ram"]
  by (simp add: load32_sample_kernelsize)

section \<open>Locating the segment\<close>

text \<open>One step of the loop, in each direction.\<close>

lemma scan_stop: "p_type m p = 1 \<Longrightarrow> scan m p = Some p"
  by (subst scan.simps) simp

lemma scan_next: "p_type m p \<noteq> 1 \<Longrightarrow> scan m p = scan m (p + sizeof_Phdr)"
  by (subst scan.simps) simp

lemma scan_first:
  "\<forall>j<k. p_type m (p + sizeof_Phdr * of_nat j) \<noteq> 1 \<Longrightarrow>
   p_type m (p + sizeof_Phdr * of_nat k) = 1 \<Longrightarrow>
   scan m p = Some (p + sizeof_Phdr * of_nat k)"
proof (induction k arbitrary: p)
  case 0
  then show ?case by (simp add: scan_stop)
next
  case (Suc k)
  from Suc.prems(1) have "p_type m (p + sizeof_Phdr * of_nat 0) \<noteq> 1" by blast
  then have first: "p_type m p \<noteq> 1" by simp
  have "\<forall>j<k. p_type m (p + sizeof_Phdr + sizeof_Phdr * of_nat j) \<noteq> 1"
  proof (intro allI impI)
    fix j assume "j < k"
    then have "Suc j < Suc k" by simp
    with Suc.prems(1) have "p_type m (p + sizeof_Phdr * of_nat (Suc j)) \<noteq> 1"
      by blast
    then show "p_type m (p + sizeof_Phdr + sizeof_Phdr * of_nat j) \<noteq> 1"
      by (simp add: algebra_simps)
  qed
  moreover have "p_type m (p + sizeof_Phdr + sizeof_Phdr * of_nat k) = 1"
    using Suc.prems(2) by (simp add: algebra_simps)
  ultimately have "scan m (p + sizeof_Phdr) = Some (p + sizeof_Phdr + sizeof_Phdr * of_nat k)"
    by (rule Suc.IH)
  with first show ?case
    by (simp add: scan_next algebra_simps)
qed

text \<open>
  C5. The scan starts at the buffer address plus the table offset read from the header
  and advances one descriptor at a time. If entry \<open>k\<close> of the table has type 1 and no
  entry before it has, the scan stops at entry \<open>k\<close>. The result is the same in every
  store that agrees on the table offset and on the type words of entries \<open>0\<close> to
  \<open>k\<close>: nothing after the first match is read.
\<close>

theorem locate_segment_first_loadable:
  "tab = hdrbuf b + e_phoff (ram s) (hdrbuf b) \<Longrightarrow>
   \<forall>j<k. p_type (ram s) (tab + sizeof_Phdr * of_nat j) \<noteq> 1 \<Longrightarrow>
   p_type (ram s) (tab + sizeof_Phdr * of_nat k) = 1 \<Longrightarrow>
   locate_segment b s = Some (tab + sizeof_Phdr * of_nat k) \<and>
   (\<forall>s'::loader. e_phoff (ram s') (hdrbuf b) = e_phoff (ram s) (hdrbuf b) \<and>
         (\<forall>j\<le>k. p_type (ram s') (tab + sizeof_Phdr * of_nat j) =
                 p_type (ram s) (tab + sizeof_Phdr * of_nat j)) \<longrightarrow>
         locate_segment b s' = Some (tab + sizeof_Phdr * of_nat k))"
proof (intro conjI allI impI)
  assume tab: "tab = hdrbuf b + e_phoff (ram s) (hdrbuf b)"
    and before: "\<forall>j<k. p_type (ram s) (tab + sizeof_Phdr * of_nat j) \<noteq> 1"
    and at: "p_type (ram s) (tab + sizeof_Phdr * of_nat k) = 1"
  show "locate_segment b s = Some (tab + sizeof_Phdr * of_nat k)"
    unfolding locate_segment_def tab [symmetric] using before at by (rule scan_first)
  fix s' :: loader
  assume same: "e_phoff (ram s') (hdrbuf b) = e_phoff (ram s) (hdrbuf b) \<and>
         (\<forall>j\<le>k. p_type (ram s') (tab + sizeof_Phdr * of_nat j) =
                 p_type (ram s) (tab + sizeof_Phdr * of_nat j))"
  then have tab': "tab = hdrbuf b + e_phoff (ram s') (hdrbuf b)"
    using tab by simp
  have "\<forall>j<k. p_type (ram s') (tab + sizeof_Phdr * of_nat j) \<noteq> 1"
    using same before by simp
  moreover have "p_type (ram s') (tab + sizeof_Phdr * of_nat k) = 1"
    using same at by simp
  ultimately show "locate_segment b s' = Some (tab + sizeof_Phdr * of_nat k)"
    unfolding locate_segment_def tab' [symmetric] by (rule scan_first)
qed

text \<open>The sample cartridge: table offset 52, first entry of type 6, second of type 1.\<close>

lemma ram_header_loaded:
  "ram (header_loaded b m) = dma_read (cart b) m (hdrbuf b) image_base 256"
  by (simp add: header_loaded_def load_header_def read_sizes_def init_def emit_def Let_def)

lemma sample_header_words:
  "load32 (ram (header_loaded sample_board m)) 0x8001001C = 52"
  "load32 (ram (header_loaded sample_board m)) 0x80010034 = 6"
  "load32 (ram (header_loaded sample_board m)) 0x80010054 = 1"
  by (simp_all add: ram_header_loaded dma_read_def sample_board_def image_of_def
      sample_bytes_def load32_def image_base_def)

lemma hdrbuf_sample: "hdrbuf sample_board = 0x80010000"
  by (simp add: sample_board_def)

theorem locate_segment_first_loadable_witness:
  "locate_segment sample_board (header_loaded sample_board blank_ram) = Some 0x80010054"
proof -
  let ?s = "header_loaded sample_board blank_ram"
  have tab: "0x80010034 = hdrbuf sample_board + e_phoff (ram ?s) (hdrbuf sample_board)"
    by (simp add: hdrbuf_sample e_phoff_def sample_header_words)
  have before: "\<forall>j<1. p_type (ram ?s) (0x80010034 + sizeof_Phdr * of_nat j) \<noteq> 1"
    by (simp add: p_type_def sample_header_words)
  have at: "p_type (ram ?s) (0x80010034 + sizeof_Phdr * of_nat 1) = 1"
    by (simp add: p_type_def sizeof_Phdr_def sample_header_words)
  from locate_segment_first_loadable [OF tab before at] show ?thesis
    by (simp add: sizeof_Phdr_def)
qed

section \<open>The run as a whole\<close>

text \<open>\<open>emit\<close> only extends the trace.\<close>

lemma emit_fields [simp]:
  "ram (emit es s) = ram s" "kernelsize (emit es s) = kernelsize s"
  "disksize (emit es s) = disksize s" "diskoff (emit es s) = diskoff s"
  "trace (emit es s) = trace s @ es"
  by (simp_all add: emit_def)

lemma boot_halt:
  "kernelsize (read_sizes b (init b m)) = 0 \<Longrightarrow>
   boot b m = Some (Halt (emit [Print no_kernel] (read_sizes b (init b m))))"
  by (simp add: boot_def Let_def)

lemma boot_run:
  "kernelsize (read_sizes b (init b m)) \<noteq> 0 \<Longrightarrow>
   boot b m =
     (case locate_segment b (emit (validate b (header_loaded b m)) (header_loaded b m)) of
        None \<Rightarrow> None
      | Some phdr \<Rightarrow>
          Some (boot_segment b phdr (emit (validate b (header_loaded b m)) (header_loaded b m))))"
  unfolding header_loaded_def by (simp add: boot_def Let_def)

lemma boot_segment_is_transfer:
  "\<exists>s' c. boot_segment b phdr s = Transfer s' c"
  by (simp add: boot_segment_def transfer_def Let_def split_def)

text \<open>
  C3. When the kernel size word read from the cartridge is 0, the run prints
  \<^verbatim>\<open>No kernel configured\<close> and is in the endless loop of line 192; it does not
  reach the call of the entry point. Conversely a run that ends in that loop read a
  kernel size of 0, and the line it printed last is that diagnostic.
\<close>

theorem halt_only_without_kernel:
  "(kernelsize (read_sizes b (init b m)) = 0 \<longrightarrow>
      boot b m = Some (Halt (emit [Print no_kernel] (read_sizes b (init b m)))) \<and>
      (\<forall>s c. boot b m \<noteq> Some (Transfer s c))) \<and>
   (\<forall>s. boot b m = Some (Halt s) \<longrightarrow>
      kernelsize (read_sizes b (init b m)) = 0 \<and> last (trace s) = Print no_kernel)"
proof (intro conjI impI allI)
  assume zero: "kernelsize (read_sizes b (init b m)) = 0"
  then show "boot b m = Some (Halt (emit [Print no_kernel] (read_sizes b (init b m))))"
    by (rule boot_halt)
  then show "boot b m \<noteq> Some (Transfer s c)" for s c
    by simp
next
  fix s
  assume halt: "boot b m = Some (Halt s)"
  show zero: "kernelsize (read_sizes b (init b m)) = 0"
  proof (rule ccontr)
    assume "kernelsize (read_sizes b (init b m)) \<noteq> 0"
    from boot_run [OF this] halt boot_segment_is_transfer show False
      by (auto split: option.splits) (metis outcome.distinct(1))
  qed
  from boot_halt [OF zero] halt have "s = emit [Print no_kernel] (read_sizes b (init b m))"
    by simp
  then show "last (trace s) = Print no_kernel"
    by (simp add: emit_def)
qed

theorem halt_only_without_kernel_witness:
  "kernelsize (read_sizes blank_board (init blank_board blank_ram)) = 0 \<and>
   boot blank_board blank_ram =
     Some (Halt (emit [Print no_kernel] (read_sizes blank_board (init blank_board blank_ram)))) \<and>
   last (trace (emit [Print no_kernel] (read_sizes blank_board (init blank_board blank_ram)))) =
     Print no_kernel"
proof -
  have "kernelsize (read_sizes blank_board (init blank_board blank_ram)) = 0"
    by (simp add: kernelsize_read_sizes blank_board_def load32_def)
  with halt_only_without_kernel [of blank_board blank_ram] show ?thesis
    by simp
qed

text \<open>The trace, piece by piece.\<close>

lemma trace_header_loaded:
  "trace (header_loaded b m) =
     [ConsoleInit, ConsoleSetRenderMode]
     @ (if isviewer b then [Log ''Detected IS Viewer-64\<newline>'' []] else [])
     @ [Log ''Found %u kb of RAM\<newline>'' [word_of_int (osMemSize b sdiv 1024)],
        CacheWritebackInvalidate KernelSize 4, Dma KernelSize (image_base - 4) 4,
        CacheWritebackInvalidate DiskSize 4, Dma DiskSize (image_base - 8) 4,
        Log ''Booting kernel %u kb, %u kb\<newline>''
          [load32 (cart b) (image_base - 4) div 1024, load32 (cart b) (image_base - 8) div 1024],
        Log ''Address: %p\<newline>'' [hdrbuf b],
        Dma (At (hdrbuf b)) image_base 256, CacheInvalidate (At (hdrbuf b)) 256]"
  by (simp add: header_loaded_def load_header_def read_sizes_def init_def emit_def Let_def)

lemma trace_load_segment:
  "trace (load_segment b phdr s) =
     trace s @
     [Dma (At (p_paddr (ram s) phdr)) (image_base + p_offset (ram s) phdr)
        ((p_filesz (ram s) phdr + 1) AND NOT 1),
      CacheWritebackInvalidate
        (At (p_paddr (dma_read (cart b) (ram s) (p_paddr (ram s) phdr)
               (image_base + p_offset (ram s) phdr) ((p_filesz (ram s) phdr + 1) AND NOT 1)) phdr))
        ((p_filesz (dma_read (cart b) (ram s) (p_paddr (ram s) phdr)
               (image_base + p_offset (ram s) phdr) ((p_filesz (ram s) phdr + 1) AND NOT 1)) phdr + 3)
           AND NOT 3)]"
  by (simp add: load_segment_def emit_def Let_def)

lemma boot_segment_trace:
  "\<exists>s' c es. boot_segment b phdr s = Transfer s' c \<and>
     trace s' = trace s @
       [Log ''LoadAddress: %p\<newline>'' [p_paddr (ram s) phdr],
        Log ''LoadOffset: %p\<newline>'' [image_base + p_offset (ram s) phdr],
        Dma (At (p_paddr (ram s) phdr)) (image_base + p_offset (ram s) phdr)
          ((p_filesz (ram s) phdr + 1) AND NOT 1)] @ es \<and>
     (\<forall>x. Print x \<notin> set es)"
  by (simp add: boot_segment_def transfer_def write_metadata_def read_entry_def
      report_segment_def trace_load_segment emit_def Let_def split_def)

lemma write_metadata_sizes [simp]:
  "disksize (write_metadata b s) = disksize s" "diskoff (write_metadata b s) = diskoff s"
  by (simp_all add: write_metadata_def Let_def)

lemma boot_segment_form:
  "boot_segment b phdr s =
     Transfer
       (emit [Log ''Jumping: %p\<newline>'' [e_entry (ram (load_segment b phdr (report_segment phdr s))) (hdrbuf b)],
              ConsoleRender, WaitMs 1024, DisableInterrupts, SetVIInterrupt 0 0]
          (write_metadata b
             (emit [Log ''Entry: %p\<newline>'' [e_entry (ram (load_segment b phdr (report_segment phdr s))) (hdrbuf b)]]
                (load_segment b phdr (report_segment phdr s)))))
       \<lparr>entry = e_entry (ram (load_segment b phdr (report_segment phdr s))) (hdrbuf b),
        argc = 4, argv = args b, envp = env, reserved = Null\<rparr>"
  by (simp add: boot_segment_def transfer_def read_entry_def Let_def args_def)

lemma boot_transfer_cases:
  assumes "boot b m = Some (Transfer s c)"
  obtains phdr s0 where
    "kernelsize (read_sizes b (init b m)) \<noteq> 0"
    "locate_segment b s0 = Some phdr"
    "s0 = emit (validate b (header_loaded b m)) (header_loaded b m)"
    "boot_segment b phdr s0 = Transfer s c"
proof -
  have nz: "kernelsize (read_sizes b (init b m)) \<noteq> 0"
    using assms boot_halt [of b m] by auto
  from boot_run [OF nz] assms that nz show thesis
    by (auto split: option.splits)
qed

lemma locate_segment_emit [simp]: "locate_segment b (emit es s) = locate_segment b s"
  by (simp add: locate_segment_def)

section \<open>The sample cartridge, run\<close>

lemma sample_sizes:
  "kernelsize (read_sizes sample_board s) = 5000"
  "disksize (read_sizes sample_board s) = 65536"
  "diskoff (read_sizes sample_board s) = 8192"
  by (simp_all add: read_sizes_def Let_def sample_board_def image_of_def sample_bytes_def
      load32_def image_base_def)

lemma locate_sample:
  "locate_segment sample_board (header_loaded sample_board m) = Some 0x80010054"
proof -
  have "scan (ram (header_loaded sample_board m)) 0x80010034 =
        scan (ram (header_loaded sample_board m)) 0x80010054"
    by (subst scan_next) (simp_all add: p_type_def sample_header_words sizeof_Phdr_def)
  also have "\<dots> = Some 0x80010054"
    by (rule scan_stop) (simp add: p_type_def sample_header_words)
  finally show ?thesis
    by (simp add: locate_segment_def hdrbuf_sample e_phoff_def sample_header_words)
qed

lemma boot_sample:
  "\<exists>s c. boot sample_board blank_ram = Some (Transfer s c)"
proof -
  have "kernelsize (read_sizes sample_board (init sample_board blank_ram)) \<noteq> 0"
    by (simp add: sample_sizes)
  from boot_run [OF this] boot_segment_is_transfer show ?thesis
    by (simp add: locate_sample)
qed

section \<open>Decimal text\<close>

lemma format_start: "format ''n64cart.start=%u'' [v] = ''n64cart.start='' @ dec (unat v)"
  by simp

lemma format_size: "format ''n64cart.size=%u'' [v] = ''n64cart.size='' @ dec (unat v)"
  by simp

lemma of_char_digit: "d < 10 \<Longrightarrow> (of_char (digit d) :: nat) = 48 + d"
  by (simp add: digit_def)


lemma is_digit_digit: "d < 10 \<Longrightarrow> is_digit (digit d)"
  by (simp add: is_digit_def of_char_digit)

lemma dec_small: "n < 10 \<Longrightarrow> dec n = [digit n]"
  by (subst dec.simps) simp

lemma dec_large: "\<not> n < 10 \<Longrightarrow> dec n = dec (n div 10) @ [digit (n mod 10)]"
  by (subst dec.simps) simp


lemma dec_digits: "list_all is_digit (dec n)"
proof (induction n rule: dec.induct)
  case (1 n)
  then show ?case
    by (cases "n < 10") (simp_all add: dec_small dec_large is_digit_digit)
qed



lemma length_dec: "0 < k \<Longrightarrow> n < 10 ^ k \<Longrightarrow> length (dec n) \<le> k"
proof (induction n arbitrary: k rule: dec.induct)
  case (1 n)
  show ?case
  proof (cases "n < 10")
    case True
    with "1.prems" show ?thesis by (simp add: dec_small)
  next
    case False
    with "1.prems" obtain k' where k: "k = Suc k'" "0 < k'"
      by (cases k; cases "k - 1") auto
    with "1.prems" have "n div 10 < 10 ^ k'"
      by (simp add: less_mult_imp_div_less mult.commute)
    with "1.IH" [OF False k(2)] have "length (dec (n div 10)) \<le> k'" .
    with False k show ?thesis by (simp add: dec_large)
  qed
qed

lemma length_dec_u32: "length (dec (unat (v :: u32))) \<le> 10"
proof -
  have "unat v < 2 ^ 32" using unsigned_less [of v] by simp
  then have "unat v < 10 ^ 10" by simp
  then show ?thesis by (intro length_dec) simp_all
qed

lemma digit_literals:
  "digit 0 = CHR ''0''" "digit 1 = CHR ''1''" "digit 2 = CHR ''2''" "digit 3 = CHR ''3''"
  "digit 4 = CHR ''4''" "digit 5 = CHR ''5''" "digit 6 = CHR ''6''" "digit 7 = CHR ''7''"
  "digit 8 = CHR ''8''" "digit 9 = CHR ''9''"
  by (simp_all add: digit_def char_of_def bit_Suc_0_iff)

lemma dec_2953850880: "dec 2953850880 = ''2953850880''"
  by (simp add: dec.simps digit_literals)

lemma dec_65536: "dec 65536 = ''65536''"
  by (simp add: dec.simps digit_literals)

section \<open>Writes to the store\<close>

lemma unat_of_nat_u32: "i < 2 ^ 32 \<Longrightarrow> unat (of_nat i :: u32) = i"
  by (simp add: unat_of_nat)

lemma store_bytes_at:
  "i < 2 ^ 32 \<Longrightarrow>
   store_bytes m dst bs (dst + of_nat i) = (if i < length bs then bs ! i else m (dst + of_nat i))"
  by (simp add: store_bytes_def unat_of_nat_u32)

lemma store_bytes_outside:
  "length bs \<le> unat (a - dst) \<Longrightarrow> store_bytes m dst bs a = m a"
  by (simp add: store_bytes_def)

lemma memset_at: "a - p < n \<Longrightarrow> memset m p c n a = c"
  by (simp add: memset_def)

lemma memset_outside: "\<not> a - p < n \<Longrightarrow> memset m p c n a = m a"
  by (simp add: memset_def)

lemma of_nat_less_256: "i < 256 \<Longrightarrow> (of_nat i :: u32) < 256"
  by (simp add: word_less_nat_alt unat_of_nat_u32)

lemma upper_slot_offset:
  "128 \<le> i \<Longrightarrow> i < 2 ^ 32 \<Longrightarrow> (h :: u32) + of_nat i = h + 128 + of_nat (i - 128)"
proof -
  assume "128 \<le> i"
  then have "i = 128 + (i - 128)" by simp
  then have "(of_nat i :: u32) = of_nat (128 + (i - 128))" by simp
  also have "\<dots> = 128 + of_nat (i - 128)" by (simp only: of_nat_add of_nat_numeral)
  finally show ?thesis by simp
qed

lemma lower_slot_distance:
  "i < 128 \<Longrightarrow> 128 \<le> unat ((h :: u32) + of_nat i - (h + 128))"
proof -
  assume i: "i < 128"
  have "h + of_nat i - (h + 128) = of_nat i - (128 :: u32)" by simp
  moreover have "unat (of_nat i - (128 :: u32)) = 2 ^ 32 + i - 128"
    using i by (simp add: unat_sub_if' unat_of_nat_u32)
  ultimately show ?thesis using i by simp
qed

lemma takeWhile_map_upt:
  assumes len: "length xs < n"
    and same: "\<forall>i<length xs. f i = xs ! i"
    and pass: "\<forall>x\<in>set xs. P x"
    and stop: "\<not> P (f (length xs))"
  shows "takeWhile P (map f [0..<n]) = xs"
proof -
  have split: "[0..<n] = [0..<length xs] @ length xs # [Suc (length xs)..<n]"
    using len by (metis less_imp_le_nat upt_add_eq_append upt_conv_Cons zero_le le_add_diff_inverse)
  have front: "map f [0..<length xs] = xs"
    using same by (intro nth_equalityI) simp_all
  show ?thesis
    unfolding split using pass stop by (simp add: front takeWhile_append2 del: upt_Suc)
qed

section \<open>The metadata records\<close>

lemma ram_write_metadata:
  "ram (write_metadata b s) =
     store_bytes
       (store_bytes (memset (ram s) (hdrbuf b) 0 256) (hdrbuf b)
          (map byte (start_record s) @ [0]))
       (hdrbuf b + 128) (map byte (size_record s) @ [0])"
  by (simp add: write_metadata_def sprintf_def emit_def Let_def start_record_def size_record_def)

lemma length_start_record: "length (start_record s) \<le> 24"
  using length_dec_u32 [of "image_base + diskoff s"] by (simp add: start_record_def)

lemma length_size_record: "length (size_record s) \<le> 23"
  using length_dec_u32 [of "disksize s"] by (simp add: size_record_def)

lemma lower_slot_byte:
  assumes "i < 128"
  shows "ram (write_metadata b s) (hdrbuf b + of_nat i) =
         (if i < length (start_record s) then byte (start_record s ! i) else 0)"
proof -
  let ?r1 = "map byte (start_record s) @ [0]" and ?r2 = "map byte (size_record s) @ [0]"
  have far: "length ?r2 \<le> unat (hdrbuf b + of_nat i - (hdrbuf b + 128))"
    using lower_slot_distance [OF assms, of "hdrbuf b"] length_size_record [of s] by simp
  have clear: "memset (ram s) (hdrbuf b) 0 256 (hdrbuf b + of_nat i) = 0"
    using assms by (intro memset_at) (simp add: of_nat_less_256)
  have "ram (write_metadata b s) (hdrbuf b + of_nat i) =
        store_bytes (memset (ram s) (hdrbuf b) 0 256) (hdrbuf b) ?r1 (hdrbuf b + of_nat i)"
    unfolding ram_write_metadata using far by (rule store_bytes_outside)
  also have "\<dots> = (if i < length ?r1 then ?r1 ! i else 0)"
    using assms by (simp add: store_bytes_at clear)
  also have "\<dots> = (if i < length (start_record s) then byte (start_record s ! i) else 0)"
    by (auto simp: nth_append less_Suc_eq)
  finally show ?thesis .
qed

lemma upper_slot_byte:
  assumes "i < 128"
  shows "ram (write_metadata b s) (hdrbuf b + 128 + of_nat i) =
         (if i < length (size_record s) then byte (size_record s ! i) else 0)"
proof -
  let ?r1 = "map byte (start_record s) @ [0]" and ?r2 = "map byte (size_record s) @ [0]"
  have addr: "hdrbuf b + 128 + of_nat i = hdrbuf b + of_nat (128 + i)"
    by (simp only: of_nat_add of_nat_numeral add.assoc)
  have "length ?r1 \<le> 128 + i"
    using length_start_record [of s] by simp
  moreover have "hdrbuf b + of_nat (128 + i) - hdrbuf b = (of_nat (128 + i) :: u32)"
    by (simp only: add_diff_cancel_left')
  moreover have "unat (of_nat (128 + i) :: u32) = 128 + i"
    using assms by (intro unat_of_nat_u32) simp
  ultimately have far: "length ?r1 \<le> unat (hdrbuf b + of_nat (128 + i) - hdrbuf b)"
    by (simp only:)
  have "(of_nat (128 + i) :: u32) < 256"
    using assms by (intro of_nat_less_256) simp
  then have "hdrbuf b + of_nat (128 + i) - hdrbuf b < 256"
    by (simp only: add_diff_cancel_left')
  then have clear: "memset (ram s) (hdrbuf b) 0 256 (hdrbuf b + of_nat (128 + i)) = 0"
    by (rule memset_at)
  have below: "store_bytes (memset (ram s) (hdrbuf b) 0 256) (hdrbuf b) ?r1
                 (hdrbuf b + 128 + of_nat i) = 0"
    unfolding addr using far clear by (simp add: store_bytes_outside)
  have "ram (write_metadata b s) (hdrbuf b + 128 + of_nat i) =
        (if i < length ?r2 then ?r2 ! i
         else store_bytes (memset (ram s) (hdrbuf b) 0 256) (hdrbuf b) ?r1
                (hdrbuf b + 128 + of_nat i))"
    unfolding ram_write_metadata using assms by (subst store_bytes_at) simp_all
  also have "\<dots> = (if i < length (size_record s) then byte (size_record s ! i) else 0)"
    unfolding below by (auto simp: nth_append less_Suc_eq)
  finally show ?thesis .
qed

lemma outside_buffer:
  assumes "256 \<le> a - hdrbuf b"
  shows "ram (write_metadata b s) a = ram s a"
proof -
  let ?r1 = "map byte (start_record s) @ [0]" and ?r2 = "map byte (size_record s) @ [0]"
  from assms have big: "256 \<le> unat (a - hdrbuf b)"
    by (simp add: word_le_nat_alt)
  have eq: "a - (hdrbuf b + 128) = (a - hdrbuf b) - 128" by simp
  have "unat (a - (hdrbuf b + 128)) = unat (a - hdrbuf b) - 128"
    unfolding eq using big by (simp add: unat_sub_if')
  moreover have "length ?r2 \<le> 24"
    using length_size_record [of s] by simp
  ultimately have "length ?r2 \<le> unat (a - (hdrbuf b + 128))"
    using big by linarith
  then have "ram (write_metadata b s) a =
             store_bytes (memset (ram s) (hdrbuf b) 0 256) (hdrbuf b) ?r1 a"
    unfolding ram_write_metadata by (rule store_bytes_outside)
  also have "\<dots> = memset (ram s) (hdrbuf b) 0 256 a"
    using big length_start_record [of s] by (intro store_bytes_outside) simp
  also have "\<dots> = ram s a"
    using assms by (intro memset_outside) (simp add: not_less)
  finally show ?thesis .
qed

lemma unat_byte: "unat (byte c) = of_char c"
proof -
  have "(of_char c :: nat) < 256" by (cases c) (simp add: of_char_def)
  then show ?thesis by (simp add: byte_def unat_of_nat)
qed

lemma chr_byte: "chr (byte c) = c"
  by (simp add: chr_def unat_byte)

lemma byte_eq_0_iff: "byte c = 0 \<longleftrightarrow> (of_char c :: nat) = 0"
  using unat_byte [of c] by (metis unat_eq_0)

lemma is_digit_not_NUL: "is_digit c \<Longrightarrow> byte c \<noteq> 0"
  by (simp add: byte_eq_0_iff is_digit_def)

lemma dec_not_NUL: "c \<in> set (dec n) \<Longrightarrow> byte c \<noteq> 0"
  using dec_digits [of n] is_digit_not_NUL [of c] by (simp add: list_all_iff)

lemma start_record_not_NUL: "c \<in> set (start_record s) \<Longrightarrow> byte c \<noteq> 0"
  by (auto simp: start_record_def byte_eq_0_iff dest: dec_not_NUL)

lemma size_record_not_NUL: "c \<in> set (size_record s) \<Longrightarrow> byte c \<noteq> 0"
  by (auto simp: size_record_def byte_eq_0_iff dest: dec_not_NUL)

lemma c_string_lower: "c_string (ram (write_metadata b s)) (hdrbuf b) = start_record s"
proof -
  let ?f = "\<lambda>i. ram (write_metadata b s) (hdrbuf b + of_nat i)"
  have "takeWhile (\<lambda>x. x \<noteq> 0) (map ?f [0..<128]) = map byte (start_record s)"
  proof (rule takeWhile_map_upt)
    show "length (map byte (start_record s)) < 128"
      using length_start_record [of s] by simp
    show "\<forall>i<length (map byte (start_record s)). ?f i = map byte (start_record s) ! i"
      using length_start_record [of s] by (simp add: lower_slot_byte)
    show "\<forall>x\<in>set (map byte (start_record s)). x \<noteq> 0"
      by (auto dest: start_record_not_NUL)
    show "\<not> ?f (length (map byte (start_record s))) \<noteq> 0"
      using length_start_record [of s] by (simp add: lower_slot_byte)
  qed
  then show ?thesis
    by (simp add: c_string_def chr_byte cong: map_cong)
qed

lemma c_string_upper: "c_string (ram (write_metadata b s)) (hdrbuf b + 128) = size_record s"
proof -
  let ?f = "\<lambda>i. ram (write_metadata b s) (hdrbuf b + 128 + of_nat i)"
  have "takeWhile (\<lambda>x. x \<noteq> 0) (map ?f [0..<128]) = map byte (size_record s)"
  proof (rule takeWhile_map_upt)
    show "length (map byte (size_record s)) < 128"
      using length_size_record [of s] by simp
    show "\<forall>i<length (map byte (size_record s)). ?f i = map byte (size_record s) ! i"
      using length_size_record [of s] by (simp add: upper_slot_byte)
    show "\<forall>x\<in>set (map byte (size_record s)). x \<noteq> 0"
      by (auto dest: size_record_not_NUL)
    show "\<not> ?f (length (map byte (size_record s))) \<noteq> 0"
      using length_size_record [of s] by (simp add: upper_slot_byte)
  qed
  then show ?thesis
    by (simp add: c_string_def chr_byte cong: map_cong)
qed





text \<open>
  C10. The record at offset 0 takes at most 25 bytes with its NUL and the record at
  offset 128 at most 24. Hence in the lower 128 bytes of the buffer everything after the
  first record's text is 0, so the first record ends before the second begins; in the
  upper 128 bytes everything after the second record's text is 0, so the second ends
  inside the buffer; and no byte outside the 256 is changed.
\<close>

theorem metadata_records_fit:
  "length (start_record s) + 1 \<le> 25 \<and> length (size_record s) + 1 \<le> 24 \<and>
   (\<forall>i<128. ram (write_metadata b s) (hdrbuf b + of_nat i) =
      (if i < length (start_record s) then byte (start_record s ! i) else 0)) \<and>
   (\<forall>i<128. ram (write_metadata b s) (hdrbuf b + 128 + of_nat i) =
      (if i < length (size_record s) then byte (size_record s ! i) else 0)) \<and>
   (\<forall>a. 256 \<le> a - hdrbuf b \<longrightarrow> ram (write_metadata b s) a = ram s a)"
  using length_start_record [of s] length_size_record [of s]
  by (simp add: lower_slot_byte upper_slot_byte outside_buffer)

lemma start_record_sample:
  "start_record (read_sizes sample_board s) = ''n64cart.start=2953850880''"
  by (simp add: start_record_def sample_sizes image_base_def dec_2953850880)

lemma size_record_sample:
  "size_record (read_sizes sample_board s) = ''n64cart.size=65536''"
  by (simp add: size_record_def sample_sizes dec_65536)

theorem metadata_records_fit_witness:
  "length (start_record (read_sizes sample_board (init sample_board blank_ram))) + 1 = 25 \<and>
   ram (write_metadata sample_board (read_sizes sample_board (init sample_board blank_ram)))
     0x80010017 = byte CHR ''0'' \<and>
   ram (write_metadata sample_board (read_sizes sample_board (init sample_board blank_ram)))
     0x80010018 = 0 \<and>
   ram (write_metadata sample_board (read_sizes sample_board (init sample_board blank_ram)))
     0x8001007F = 0 \<and>
   ram (write_metadata sample_board (read_sizes sample_board (init sample_board blank_ram)))
     0x80010080 = byte CHR ''n'' \<and>
   ram (write_metadata sample_board (read_sizes sample_board (init sample_board blank_ram)))
     0x800100FF = 0 \<and>
   ram (write_metadata sample_board (read_sizes sample_board (init sample_board blank_ram)))
     0x80010100 = 0"
proof -
  let ?s = "read_sizes sample_board (init sample_board blank_ram)"
  note fit = metadata_records_fit [of ?s sample_board]
  from fit have lower: "\<forall>i<128. ram (write_metadata sample_board ?s) (hdrbuf sample_board + of_nat i) =
      (if i < length (start_record ?s) then byte (start_record ?s ! i) else 0)"
    by blast
  from fit have upper: "\<forall>i<128. ram (write_metadata sample_board ?s) (hdrbuf sample_board + 128 + of_nat i) =
      (if i < length (size_record ?s) then byte (size_record ?s ! i) else 0)"
    by blast
  from fit have outside: "\<forall>a. 256 \<le> a - hdrbuf sample_board \<longrightarrow>
      ram (write_metadata sample_board ?s) a = ram ?s a"
    by blast
  have "ram ?s 0x80010100 = 0"
    by (simp add: read_sizes_def init_def emit_def Let_def blank_ram_def)
  with lower [rule_format, of 23] lower [rule_format, of 24] lower [rule_format, of 127]
    upper [rule_format, of 0] upper [rule_format, of 127] outside [rule_format, of "0x80010100"]
  show ?thesis
    by (simp add: hdrbuf_sample start_record_sample size_record_sample)
qed

section \<open>The header checks\<close>

lemma validate_prints:
  "Print x \<in> set (validate b s) \<longleftrightarrow>
     x = ''Not an ELF kernel?\<newline>'' \<and>
       (e_ident (ram s) (hdrbuf b) 1 \<noteq> byte CHR ''E'' \<or>
        e_ident (ram s) (hdrbuf b) 2 \<noteq> byte CHR ''L'' \<or>
        e_ident (ram s) (hdrbuf b) 3 \<noteq> byte CHR ''F'') \<or>
     x = ''Not a 32-bit kernel?\<newline>'' \<and> e_ident (ram s) (hdrbuf b) EI_CLASS \<noteq> ELFCLASS32"
  by (auto simp: validate_def)

lemma header_loaded_no_print: "Print x \<notin> set (trace (header_loaded b m))"
  by (simp add: trace_header_loaded)

text \<open>
  C4. With a kernel configured, the checks only add their lines to the trace: the run
  goes on to the scan from the same store and, from the descriptor the scan finds, to
  the loading, and it never ends in the endless loop, whatever the header bytes are. If
  the scan finds a descriptor, the run reaches the call of the
  entry point, its trace holds the transfer of that segment, and the lines printed are
  exactly these: \<^verbatim>\<open>Not an ELF kernel?\<close> when one of the bytes 1 to 3 of the
  identification differs from \<open>E\<close>, \<open>L\<close>, \<open>F\<close>, and \<^verbatim>\<open>Not a 32-bit kernel?\<close>
  when the class byte differs from 1. With all four bytes as expected nothing is printed.
\<close>

theorem header_checks_are_not_fatal:
  assumes "kernelsize (read_sizes b (init b m)) \<noteq> 0"
  shows "boot b m =
      map_option
        (\<lambda>phdr. boot_segment b phdr
           (emit (validate b (header_loaded b m)) (header_loaded b m)))
        (locate_segment b (header_loaded b m)) \<and>
    (\<forall>s. boot b m \<noteq> Some (Halt s)) \<and>
    (\<forall>phdr. locate_segment b (header_loaded b m) = Some phdr \<longrightarrow>
       (\<exists>s c. boot b m = Some (Transfer s c) \<and>
          (\<forall>x. Print x \<in> set (trace s) \<longleftrightarrow>
             x = ''Not an ELF kernel?\<newline>'' \<and>
               (e_ident (ram (header_loaded b m)) (hdrbuf b) 1 \<noteq> byte CHR ''E'' \<or>
                e_ident (ram (header_loaded b m)) (hdrbuf b) 2 \<noteq> byte CHR ''L'' \<or>
                e_ident (ram (header_loaded b m)) (hdrbuf b) 3 \<noteq> byte CHR ''F'') \<or>
             x = ''Not a 32-bit kernel?\<newline>'' \<and>
               e_ident (ram (header_loaded b m)) (hdrbuf b) EI_CLASS \<noteq> ELFCLASS32) \<and>
          Dma (At (p_paddr (ram (header_loaded b m)) phdr))
              (image_base + p_offset (ram (header_loaded b m)) phdr)
              ((p_filesz (ram (header_loaded b m)) phdr + 1) AND NOT 1) \<in> set (trace s)))"
proof (intro conjI allI impI)
  let ?h = "header_loaded b m"
  let ?v = "emit (validate b ?h) ?h"
  note run = boot_run [OF assms]
  show "boot b m = map_option (\<lambda>phdr. boot_segment b phdr ?v) (locate_segment b ?h)"
    unfolding run by (cases "locate_segment b ?h") simp_all
  show "boot b m \<noteq> Some (Halt s)" for s
    using run boot_segment_is_transfer [of b _ ?v]
    by (auto split: option.splits) (metis outcome.distinct(1))
  fix phdr
  assume found: "locate_segment b ?h = Some phdr"
  then have boot: "boot b m = Some (boot_segment b phdr ?v)"
    using run by simp
  from boot_segment_trace [of b phdr ?v] obtain s c es where
    seg: "boot_segment b phdr ?v = Transfer s c"
    and tr: "trace s = trace ?v @
       [Log ''LoadAddress: %p\<newline>'' [p_paddr (ram ?v) phdr],
        Log ''LoadOffset: %p\<newline>'' [image_base + p_offset (ram ?v) phdr],
        Dma (At (p_paddr (ram ?v) phdr)) (image_base + p_offset (ram ?v) phdr)
          ((p_filesz (ram ?v) phdr + 1) AND NOT 1)] @ es"
    and quiet: "\<forall>x. Print x \<notin> set es"
    by blast
  have prints: "Print x \<in> set (trace s) \<longleftrightarrow> Print x \<in> set (validate b ?h)" for x
    unfolding tr using quiet header_loaded_no_print [of _ b m] by auto
  show "\<exists>s c. boot b m = Some (Transfer s c) \<and>
          (\<forall>x. Print x \<in> set (trace s) \<longleftrightarrow>
             x = ''Not an ELF kernel?\<newline>'' \<and>
               (e_ident (ram ?h) (hdrbuf b) 1 \<noteq> byte CHR ''E'' \<or>
                e_ident (ram ?h) (hdrbuf b) 2 \<noteq> byte CHR ''L'' \<or>
                e_ident (ram ?h) (hdrbuf b) 3 \<noteq> byte CHR ''F'') \<or>
             x = ''Not a 32-bit kernel?\<newline>'' \<and>
               e_ident (ram ?h) (hdrbuf b) EI_CLASS \<noteq> ELFCLASS32) \<and>
          Dma (At (p_paddr (ram ?h) phdr)) (image_base + p_offset (ram ?h) phdr)
              ((p_filesz (ram ?h) phdr + 1) AND NOT 1) \<in> set (trace s)"
  proof (intro exI conjI allI)
    show "boot b m = Some (Transfer s c)"
      using boot seg by simp
    show "Print x \<in> set (trace s) \<longleftrightarrow>
             x = ''Not an ELF kernel?\<newline>'' \<and>
               (e_ident (ram ?h) (hdrbuf b) 1 \<noteq> byte CHR ''E'' \<or>
                e_ident (ram ?h) (hdrbuf b) 2 \<noteq> byte CHR ''L'' \<or>
                e_ident (ram ?h) (hdrbuf b) 3 \<noteq> byte CHR ''F'') \<or>
             x = ''Not a 32-bit kernel?\<newline>'' \<and>
               e_ident (ram ?h) (hdrbuf b) EI_CLASS \<noteq> ELFCLASS32" for x
      unfolding prints by (rule validate_prints)
    show "Dma (At (p_paddr (ram ?h) phdr)) (image_base + p_offset (ram ?h) phdr)
              ((p_filesz (ram ?h) phdr + 1) AND NOT 1) \<in> set (trace s)"
      unfolding tr by simp
  qed
qed

text \<open>The cartridge with the damaged identification.\<close>

lemma hdrbuf_xlf: "hdrbuf xlf_board = 0x80010000"
  by (simp add: xlf_board_def sample_board_def)

lemma xlf_kernelsize: "kernelsize (read_sizes xlf_board s) = 5000"
  by (simp add: read_sizes_def Let_def xlf_board_def sample_board_def image_of_def sample_bytes_def
      load32_def image_base_def)

lemma xlf_header_words:
  "load32 (ram (header_loaded xlf_board m)) 0x8001001C = 52"
  "load32 (ram (header_loaded xlf_board m)) 0x80010034 = 6"
  "load32 (ram (header_loaded xlf_board m)) 0x80010054 = 1"
  "load32 (ram (header_loaded xlf_board m)) 0x80010058 = 0x80"
  "load32 (ram (header_loaded xlf_board m)) 0x80010060 = 0x80101000"
  "load32 (ram (header_loaded xlf_board m)) 0x80010064 = 5"
  by (simp_all add: ram_header_loaded dma_read_def xlf_board_def sample_board_def image_of_def
      sample_bytes_def load32_def image_base_def)

lemma xlf_ident:
  "e_ident (ram (header_loaded xlf_board m)) 0x80010000 1 = 0x58"
  "e_ident (ram (header_loaded xlf_board m)) 0x80010000 2 = 0x4C"
  "e_ident (ram (header_loaded xlf_board m)) 0x80010000 3 = 0x46"
  "e_ident (ram (header_loaded xlf_board m)) 0x80010000 EI_CLASS = 1"
  by (simp_all add: e_ident_def EI_CLASS_def ram_header_loaded dma_read_def xlf_board_def
      sample_board_def image_of_def sample_bytes_def image_base_def)

lemma locate_xlf:
  "locate_segment xlf_board (header_loaded xlf_board m) = Some 0x80010054"
proof -
  have "scan (ram (header_loaded xlf_board m)) 0x80010034 =
        scan (ram (header_loaded xlf_board m)) 0x80010054"
    by (subst scan_next) (simp_all add: p_type_def xlf_header_words sizeof_Phdr_def)
  also have "\<dots> = Some 0x80010054"
    by (rule scan_stop) (simp add: p_type_def xlf_header_words)
  finally show ?thesis
    by (simp add: locate_segment_def hdrbuf_xlf e_phoff_def xlf_header_words)
qed

theorem header_checks_are_not_fatal_witness:
  "\<exists>s c. boot xlf_board blank_ram = Some (Transfer s c) \<and>
     Print ''Not an ELF kernel?\<newline>'' \<in> set (trace s) \<and>
     Print ''Not a 32-bit kernel?\<newline>'' \<notin> set (trace s) \<and>
     Dma (At 0x80101000) 0xB0101080 6 \<in> set (trace s)"
proof -
  have "kernelsize (read_sizes xlf_board (init xlf_board blank_ram)) \<noteq> 0"
    by (simp add: xlf_kernelsize)
  from header_checks_are_not_fatal [OF this] locate_xlf [of blank_ram]
  obtain s c where run: "boot xlf_board blank_ram = Some (Transfer s c)"
    and prints: "\<forall>x. Print x \<in> set (trace s) \<longleftrightarrow>
             x = ''Not an ELF kernel?\<newline>'' \<and>
               (e_ident (ram (header_loaded xlf_board blank_ram)) (hdrbuf xlf_board) 1 \<noteq> byte CHR ''E'' \<or>
                e_ident (ram (header_loaded xlf_board blank_ram)) (hdrbuf xlf_board) 2 \<noteq> byte CHR ''L'' \<or>
                e_ident (ram (header_loaded xlf_board blank_ram)) (hdrbuf xlf_board) 3 \<noteq> byte CHR ''F'') \<or>
             x = ''Not a 32-bit kernel?\<newline>'' \<and>
               e_ident (ram (header_loaded xlf_board blank_ram)) (hdrbuf xlf_board) EI_CLASS \<noteq> ELFCLASS32"
    and dma: "Dma (At (p_paddr (ram (header_loaded xlf_board blank_ram)) 0x80010054))
              (image_base + p_offset (ram (header_loaded xlf_board blank_ram)) 0x80010054)
              ((p_filesz (ram (header_loaded xlf_board blank_ram)) 0x80010054 + 1) AND NOT 1)
              \<in> set (trace s)"
    by blast
  have "Print ''Not an ELF kernel?\<newline>'' \<in> set (trace s)"
    unfolding prints [rule_format] by (simp add: hdrbuf_xlf xlf_ident byte_def del: One_nat_def)
  moreover have "Print ''Not a 32-bit kernel?\<newline>'' \<notin> set (trace s)"
    unfolding prints [rule_format] by (simp add: hdrbuf_xlf xlf_ident ELFCLASS32_def)
  moreover have "Dma (At 0x80101000) 0xB0101080 6 \<in> set (trace s)"
    using dma by (simp add: p_paddr_def p_offset_def p_filesz_def xlf_header_words image_base_def)
  ultimately show ?thesis
    using run by blast
qed

section \<open>Loading the segment\<close>

text \<open>\<open>load_segment\<close> in terms of the store it reads the descriptor from a second time.\<close>

lemma ram_load_segment:
  "ram (load_segment b phdr s) =
     (if p_filesz (after_transfer b phdr s) phdr < p_memsz (after_transfer b phdr s) phdr
      then memset (after_transfer b phdr s)
             (p_paddr (after_transfer b phdr s) phdr + p_filesz (after_transfer b phdr s) phdr) 0
             (p_memsz (after_transfer b phdr s) phdr - p_filesz (after_transfer b phdr s) phdr)
      else after_transfer b phdr s)"
  by (simp add: load_segment_def after_transfer_def emit_def Let_def)

lemma trace_load_segment_after:
  "trace (load_segment b phdr s) =
     trace s @
     [Dma (At (p_paddr (ram s) phdr)) (image_base + p_offset (ram s) phdr)
        ((p_filesz (ram s) phdr + 1) AND NOT 1),
      CacheWritebackInvalidate (At (p_paddr (after_transfer b phdr s) phdr))
        ((p_filesz (after_transfer b phdr s) phdr + 3) AND NOT 3)]"
  by (simp add: load_segment_def after_transfer_def emit_def Let_def)

lemma even_length_covers:
  fixes f M :: u32
  assumes "f < M"
  shows "unat f \<le> unat ((f + 1) AND NOT 1)"
proof -
  from assms have "unat f < unat M" by (simp add: word_less_nat_alt)
  moreover have "unat M < 2 ^ 32" using unsigned_less [of M] by simp
  ultimately have small: "unat f + 1 < 2 ^ 32" by linarith
  have "(unat f + 1) div 2 * 2 \<le> unat f + 1" by simp
  with small have "((unat f + 1) div 2 * 2) mod 2 ^ 32 = (unat f + 1) div 2 * 2"
    by simp
  then have "unat ((f + 1) AND NOT 1) = (unat f + 1) div 2 * 2"
    by (simp only: unat_align_2)
  then show ?thesis by presburger
qed

lemma file_then_zeros:
  fixes f M p src :: u32
  assumes lt: "f < M" and i: "i < unat M"
  shows "memset (dma_read c m p src ((f + 1) AND NOT 1)) (p + f) 0 (M - f) (p + of_nat i) =
         (if i < unat f then c (src + of_nat i) else 0)"
proof -
  have M: "unat M < 2 ^ 32" using unsigned_less [of M] by simp
  with i have i32: "i < 2 ^ 32" by simp
  then have ui: "unat (of_nat i :: u32) = i" by (rule unat_of_nat_u32)
  from lt have fM: "unat f < unat M" by (simp add: word_less_nat_alt)
  then have uMf: "unat (M - f) = unat M - unat f" by (simp add: unat_sub_if')
  have off: "p + of_nat i - (p + f) = of_nat i - f" by simp
  show ?thesis
  proof (cases "i < unat f")
    case True
    then have "unat (of_nat i - f) = 2 ^ 32 + i - unat f"
      by (simp add: unat_sub_if' ui)
    with uMf M i have "\<not> (of_nat i - f < M - f)"
      by (simp add: word_less_nat_alt)
    then have "memset (dma_read c m p src ((f + 1) AND NOT 1)) (p + f) 0 (M - f) (p + of_nat i) =
               dma_read c m p src ((f + 1) AND NOT 1) (p + of_nat i)"
      unfolding memset_def off by (simp only: if_False)
    also have "\<dots> = c (src + of_nat i)"
    proof -
      from True even_length_covers [OF lt] have "i < unat ((f + 1) AND NOT 1)" by linarith
      then have "of_nat i < (f + 1) AND NOT 1"
        by (simp only: word_less_nat_alt ui)
      then show ?thesis
        unfolding dma_read_def by (simp only: add_diff_cancel_left' if_True)
    qed
    finally show ?thesis using True by simp
  next
    case False
    then have "unat (of_nat i - f) = i - unat f"
      by (simp add: unat_sub_if' ui)
    with uMf i False have "of_nat i - f < M - f"
      by (simp add: word_less_nat_alt)
    then have "memset (dma_read c m p src ((f + 1) AND NOT 1)) (p + f) 0 (M - f) (p + of_nat i) = 0"
      unfolding memset_def off by (simp only: if_True)
    with False show ?thesis by simp
  qed
qed

text \<open>
  A transfer that stays clear of the twelve bytes holding the descriptor's physical
  address, file size and memory size leaves those three fields as they were.
\<close>

lemma load32_dma_read_apart:
  assumes "\<forall>j<4. \<not> (a + of_nat j - dst < len)"
  shows "load32 (dma_read c m dst src len) a = load32 m a"
  using assms [rule_format, of 0] assms [rule_format, of 1] assms [rule_format, of 2]
    assms [rule_format, of 3]
  by (simp add: load32_def dma_read_def)

lemma descriptor_kept_when_apart:
  assumes "\<forall>j<12. \<not> (phdr + 12 + of_nat j - p_paddr (ram s) phdr
                       < (p_filesz (ram s) phdr + 1) AND NOT 1)"
  shows "p_paddr (after_transfer b phdr s) phdr = p_paddr (ram s) phdr \<and>
         p_filesz (after_transfer b phdr s) phdr = p_filesz (ram s) phdr \<and>
         p_memsz (after_transfer b phdr s) phdr = p_memsz (ram s) phdr"
proof -
  have apart: "\<not> (phdr + 12 + of_nat (k + j) - p_paddr (ram s) phdr
                    < (p_filesz (ram s) phdr + 1) AND NOT 1)" if "k + j < 12" for k j
    using assms that by blast
  have "\<forall>j<4. \<not> (phdr + 12 + of_nat j - p_paddr (ram s) phdr < (p_filesz (ram s) phdr + 1) AND NOT 1)"
    using apart [of 0] by simp
  moreover have "\<forall>j<4. \<not> (phdr + 16 + of_nat j - p_paddr (ram s) phdr < (p_filesz (ram s) phdr + 1) AND NOT 1)"
    using apart [of 4] by (simp add: algebra_simps)
  moreover have "\<forall>j<4. \<not> (phdr + 20 + of_nat j - p_paddr (ram s) phdr < (p_filesz (ram s) phdr + 1) AND NOT 1)"
    using apart [of 8] by (simp add: algebra_simps)
  ultimately show ?thesis
    unfolding p_paddr_def p_filesz_def p_memsz_def after_transfer_def
    by (simp only: load32_dma_read_apart simp_thms)
qed

text \<open>
  C1, as amended. \<open>load_segment\<close> reads the descriptor again after the transfer, so the
  statement needs the transfer to leave the descriptor's physical address, file size
  and memory size unchanged (as it does when the destination does not overlap the
  descriptor in the header buffer). Then, for a segment whose memory size exceeds its
  file size, byte \<open>i\<close> of the target range is byte \<open>i\<close> of the file contents for \<open>i\<close>
  below the file size and 0 from there up to the memory size.
\<close>

theorem load_segment_file_then_zeros:
  assumes "p_filesz (ram s) phdr < p_memsz (ram s) phdr"
    and "p_paddr (after_transfer b phdr s) phdr = p_paddr (ram s) phdr"
    and "p_filesz (after_transfer b phdr s) phdr = p_filesz (ram s) phdr"
    and "p_memsz (after_transfer b phdr s) phdr = p_memsz (ram s) phdr"
  shows "\<forall>i<unat (p_memsz (ram s) phdr).
           ram (load_segment b phdr s) (p_paddr (ram s) phdr + of_nat i) =
             (if i < unat (p_filesz (ram s) phdr)
              then cart b (image_base + p_offset (ram s) phdr + of_nat i) else 0)"
proof (intro allI impI)
  fix i
  assume i: "i < unat (p_memsz (ram s) phdr)"
  have "ram (load_segment b phdr s) =
        memset (after_transfer b phdr s) (p_paddr (ram s) phdr + p_filesz (ram s) phdr) 0
          (p_memsz (ram s) phdr - p_filesz (ram s) phdr)"
    unfolding ram_load_segment assms(2-4) using assms(1) by simp
  then show "ram (load_segment b phdr s) (p_paddr (ram s) phdr + of_nat i) =
             (if i < unat (p_filesz (ram s) phdr)
              then cart b (image_base + p_offset (ram s) phdr + of_nat i) else 0)"
    unfolding after_transfer_def using file_then_zeros [OF assms(1) i] by simp
qed

text \<open>The sample cartridge: 5 bytes of file, 12 of memory, placed away from the buffer.\<close>

lemma sample_segment:
  "p_offset (ram (header_loaded sample_board m)) 0x80010054 = 0x80"
  "p_paddr (ram (header_loaded sample_board m)) 0x80010054 = 0x80101000"
  "p_filesz (ram (header_loaded sample_board m)) 0x80010054 = 5"
  "p_memsz (ram (header_loaded sample_board m)) 0x80010054 = 12"
  by (simp_all add: p_offset_def p_paddr_def p_filesz_def p_memsz_def ram_header_loaded dma_read_def
      sample_board_def image_of_def sample_bytes_def load32_def image_base_def)

lemma sample_segment_kept:
  "p_paddr (after_transfer sample_board 0x80010054 (header_loaded sample_board m)) 0x80010054 = 0x80101000"
  "p_filesz (after_transfer sample_board 0x80010054 (header_loaded sample_board m)) 0x80010054 = 5"
  "p_memsz (after_transfer sample_board 0x80010054 (header_loaded sample_board m)) 0x80010054 = 12"
  by (simp_all add: after_transfer_def p_offset_def p_paddr_def p_filesz_def p_memsz_def
      ram_header_loaded dma_read_def sample_board_def image_of_def sample_bytes_def load32_def
      image_base_def)

lemma sample_file_bytes:
  "cart sample_board 0xB0101080 = 0xDE"
  "cart sample_board 0xB0101084 = 0x01"
  "cart sample_board 0xB0101085 = 0x99"
  by (simp_all add: sample_board_def image_of_def sample_bytes_def image_base_def)

theorem load_segment_file_then_zeros_witness:
  "ram (load_segment sample_board 0x80010054 (header_loaded sample_board blank_ram)) 0x80101000 = 0xDE \<and>
   ram (load_segment sample_board 0x80010054 (header_loaded sample_board blank_ram)) 0x80101004 = 0x01 \<and>
   ram (load_segment sample_board 0x80010054 (header_loaded sample_board blank_ram)) 0x80101005 = 0 \<and>
   ram (load_segment sample_board 0x80010054 (header_loaded sample_board blank_ram)) 0x8010100B = 0"
proof -
  let ?s = "header_loaded sample_board blank_ram"
  have "p_filesz (ram ?s) 0x80010054 < p_memsz (ram ?s) 0x80010054"
    by (simp add: sample_segment)
  moreover have "p_paddr (after_transfer sample_board 0x80010054 ?s) 0x80010054 = p_paddr (ram ?s) 0x80010054"
    by (simp add: sample_segment sample_segment_kept)
  moreover have "p_filesz (after_transfer sample_board 0x80010054 ?s) 0x80010054 = p_filesz (ram ?s) 0x80010054"
    by (simp add: sample_segment sample_segment_kept)
  moreover have "p_memsz (after_transfer sample_board 0x80010054 ?s) 0x80010054 = p_memsz (ram ?s) 0x80010054"
    by (simp add: sample_segment sample_segment_kept)
  ultimately have bytes: "\<forall>i<unat (p_memsz (ram ?s) 0x80010054).
           ram (load_segment sample_board 0x80010054 ?s) (p_paddr (ram ?s) 0x80010054 + of_nat i) =
             (if i < unat (p_filesz (ram ?s) 0x80010054)
              then cart sample_board (image_base + p_offset (ram ?s) 0x80010054 + of_nat i) else 0)"
    by (rule load_segment_file_then_zeros)
  from bytes [rule_format, of 0] bytes [rule_format, of 4] bytes [rule_format, of 5]
    bytes [rule_format, of 11]
  show ?thesis
    by (simp add: sample_segment sample_file_bytes image_base_def)
qed

text \<open>
  The cartridge whose segment lands on its own descriptor. The descriptor asks for 24
  bytes of file and 32 of memory at its own address. The transfer overwrites its first 24
  bytes with zeros, the file size and memory size then both read 0, and nothing is
  cleared: the tail keeps the descriptor's flags word.
\<close>

lemma overlap_header_words:
  "load32 (ram (header_loaded overlap_board m)) 0x8001001C = 52"
  "load32 (ram (header_loaded overlap_board m)) 0x80010034 = 1"
  by (simp_all add: ram_header_loaded dma_read_def overlap_board_def image_of_def
      overlap_bytes_def load32_def image_base_def)

lemma locate_overlap:
  "locate_segment overlap_board (header_loaded overlap_board m) = Some 0x80010034"
proof -
  have "scan (ram (header_loaded overlap_board m)) 0x80010034 = Some 0x80010034"
    by (rule scan_stop) (simp add: p_type_def overlap_header_words)
  then show ?thesis
    by (simp add: locate_segment_def overlap_board_def e_phoff_def
        overlap_header_words [unfolded overlap_board_def])
qed

lemma overlap_segment:
  "p_offset (ram (header_loaded overlap_board m)) 0x80010034 = 0x1000"
  "p_paddr (ram (header_loaded overlap_board m)) 0x80010034 = 0x80010034"
  "p_filesz (ram (header_loaded overlap_board m)) 0x80010034 = 24"
  "p_memsz (ram (header_loaded overlap_board m)) 0x80010034 = 32"
  by (simp_all add: p_offset_def p_paddr_def p_filesz_def p_memsz_def ram_header_loaded dma_read_def
      overlap_board_def image_of_def overlap_bytes_def load32_def image_base_def)

lemma overlap_segment_after:
  "p_paddr (after_transfer overlap_board 0x80010034 (header_loaded overlap_board m)) 0x80010034 = 0"
  "p_filesz (after_transfer overlap_board 0x80010034 (header_loaded overlap_board m)) 0x80010034 = 0"
  "p_memsz (after_transfer overlap_board 0x80010034 (header_loaded overlap_board m)) 0x80010034 = 0"
  by (simp_all add: after_transfer_def p_offset_def p_paddr_def p_filesz_def p_memsz_def
      ram_header_loaded dma_read_def overlap_board_def image_of_def overlap_bytes_def load32_def
      image_base_def)

lemma overlap_tail_byte:
  "after_transfer overlap_board 0x80010034 (header_loaded overlap_board m) 0x8001004F = 5"
  by (simp add: after_transfer_def p_offset_def p_paddr_def p_filesz_def
      ram_header_loaded dma_read_def overlap_board_def image_of_def overlap_bytes_def load32_def
      image_base_def)

text \<open>
  C1 as stated fails here: the segment found by the scan has file size 24 and memory
  size 32, and after \<open>load_segment\<close> the byte at offset 27 of its target range is 5.
\<close>

theorem load_segment_overlap_tail_not_zero:
  "locate_segment overlap_board (header_loaded overlap_board blank_ram) = Some 0x80010034 \<and>
   p_paddr (ram (header_loaded overlap_board blank_ram)) 0x80010034 = 0x80010034 \<and>
   p_filesz (ram (header_loaded overlap_board blank_ram)) 0x80010034 = 24 \<and>
   p_memsz (ram (header_loaded overlap_board blank_ram)) 0x80010034 = 32 \<and>
   ram (load_segment overlap_board 0x80010034 (header_loaded overlap_board blank_ram))
     (0x80010034 + 24 + 3) = 5"
  by (simp add: locate_overlap overlap_segment ram_load_segment overlap_segment_after
      overlap_tail_byte)

text \<open>
  C6, as amended. \<open>load_segment\<close> adds two entries to the trace. The first is the
  transfer of the file size plus 1 with the lowest bit cleared, from the image base plus
  the file offset to the physical address; it changes exactly the bytes of that
  destination range. The second is a cache maintenance call whose address and length are
  read from the descriptor after the transfer; if the transfer leaves the descriptor's
  physical address and file size unchanged, it is on the same address and covers the
  file size plus 3 with the two lowest bits cleared. Both lengths are computed in 32-bit
  arithmetic: the file size rounded up to a multiple of 2, respectively 4, modulo
  \<open>2 ^ 32\<close>.
\<close>

theorem load_segment_transfer_sizes:
  "trace (load_segment b phdr s) =
     trace s @
     [Dma (At (p_paddr (ram s) phdr)) (image_base + p_offset (ram s) phdr)
        ((p_filesz (ram s) phdr + 1) AND NOT 1),
      CacheWritebackInvalidate (At (p_paddr (after_transfer b phdr s) phdr))
        ((p_filesz (after_transfer b phdr s) phdr + 3) AND NOT 3)] \<and>
   (p_paddr (after_transfer b phdr s) phdr = p_paddr (ram s) phdr \<and>
    p_filesz (after_transfer b phdr s) phdr = p_filesz (ram s) phdr \<longrightarrow>
      trace (load_segment b phdr s) =
        trace s @
        [Dma (At (p_paddr (ram s) phdr)) (image_base + p_offset (ram s) phdr)
           ((p_filesz (ram s) phdr + 1) AND NOT 1),
         CacheWritebackInvalidate (At (p_paddr (ram s) phdr))
           ((p_filesz (ram s) phdr + 3) AND NOT 3)]) \<and>
   unat ((p_filesz (ram s) phdr + 1) AND NOT 1) =
     ((unat (p_filesz (ram s) phdr) + 1) div 2 * 2) mod 2 ^ 32 \<and>
   unat ((p_filesz (ram s) phdr + 3) AND NOT 3) =
     ((unat (p_filesz (ram s) phdr) + 3) div 4 * 4) mod 2 ^ 32 \<and>
   (\<forall>a. after_transfer b phdr s a =
      (if a - p_paddr (ram s) phdr < (p_filesz (ram s) phdr + 1) AND NOT 1
       then cart b (image_base + p_offset (ram s) phdr + (a - p_paddr (ram s) phdr))
       else ram s a))"
proof (intro conjI allI impI)
  show "trace (load_segment b phdr s) =
     trace s @
     [Dma (At (p_paddr (ram s) phdr)) (image_base + p_offset (ram s) phdr)
        ((p_filesz (ram s) phdr + 1) AND NOT 1),
      CacheWritebackInvalidate (At (p_paddr (after_transfer b phdr s) phdr))
        ((p_filesz (after_transfer b phdr s) phdr + 3) AND NOT 3)]"
    by (rule trace_load_segment_after)
  show "trace (load_segment b phdr s) =
        trace s @
        [Dma (At (p_paddr (ram s) phdr)) (image_base + p_offset (ram s) phdr)
           ((p_filesz (ram s) phdr + 1) AND NOT 1),
         CacheWritebackInvalidate (At (p_paddr (ram s) phdr))
           ((p_filesz (ram s) phdr + 3) AND NOT 3)]"
    if "p_paddr (after_transfer b phdr s) phdr = p_paddr (ram s) phdr \<and>
        p_filesz (after_transfer b phdr s) phdr = p_filesz (ram s) phdr"
    unfolding trace_load_segment_after using that by (simp only:)
  show "unat ((p_filesz (ram s) phdr + 1) AND NOT 1) =
           ((unat (p_filesz (ram s) phdr) + 1) div 2 * 2) mod 2 ^ 32"
    by (rule unat_align_2)
  show "unat ((p_filesz (ram s) phdr + 3) AND NOT 3) =
           ((unat (p_filesz (ram s) phdr) + 3) div 4 * 4) mod 2 ^ 32"
    by (rule unat_align_4)
  show "after_transfer b phdr s a =
            (if a - p_paddr (ram s) phdr < (p_filesz (ram s) phdr + 1) AND NOT 1
             then cart b (image_base + p_offset (ram s) phdr + (a - p_paddr (ram s) phdr))
             else ram s a)" for a
    by (simp add: after_transfer_def dma_read_def)
qed

theorem load_segment_transfer_sizes_witness:
  "trace (load_segment sample_board 0x80010054 (header_loaded sample_board blank_ram)) =
     trace (header_loaded sample_board blank_ram) @
     [Dma (At 0x80101000) 0xB0101080 6, CacheWritebackInvalidate (At 0x80101000) 8]"
proof -
  let ?s = "header_loaded sample_board blank_ram"
  have kept: "p_paddr (after_transfer sample_board 0x80010054 ?s) 0x80010054 = p_paddr (ram ?s) 0x80010054 \<and>
     p_filesz (after_transfer sample_board 0x80010054 ?s) 0x80010054 = p_filesz (ram ?s) 0x80010054"
    by (simp add: sample_segment sample_segment_kept)
  from load_segment_transfer_sizes [of sample_board "0x80010054" ?s] kept
  have "trace (load_segment sample_board 0x80010054 ?s) =
        trace ?s @
        [Dma (At (p_paddr (ram ?s) 0x80010054)) (image_base + p_offset (ram ?s) 0x80010054)
           ((p_filesz (ram ?s) 0x80010054 + 1) AND NOT 1),
         CacheWritebackInvalidate (At (p_paddr (ram ?s) 0x80010054))
           ((p_filesz (ram ?s) 0x80010054 + 3) AND NOT 3)]"
    by blast
  then show ?thesis
    by (simp add: sample_segment image_base_def)
qed

text \<open>The cartridge whose descriptor gives a file size of \<open>0xFFFFFFFF\<close>.\<close>

lemma huge_header_words:
  "load32 (ram (header_loaded huge_board m)) 0x8001001C = 52"
  "load32 (ram (header_loaded huge_board m)) 0x80010034 = 6"
  "load32 (ram (header_loaded huge_board m)) 0x80010054 = 1"
  by (simp_all add: ram_header_loaded dma_read_def huge_board_def sample_board_def image_of_def
      sample_bytes_def load32_def image_base_def)

lemma hdrbuf_huge: "hdrbuf huge_board = 0x80010000"
  by (simp add: huge_board_def sample_board_def)

lemma locate_huge:
  "locate_segment huge_board (header_loaded huge_board m) = Some 0x80010054"
proof -
  have "scan (ram (header_loaded huge_board m)) 0x80010034 =
        scan (ram (header_loaded huge_board m)) 0x80010054"
    by (subst scan_next) (simp_all add: p_type_def huge_header_words sizeof_Phdr_def)
  also have "\<dots> = Some 0x80010054"
    by (rule scan_stop) (simp add: p_type_def huge_header_words)
  finally show ?thesis
    by (simp add: locate_segment_def hdrbuf_huge e_phoff_def huge_header_words)
qed

lemma huge_segment:
  "p_offset (ram (header_loaded huge_board m)) 0x80010054 = 0x80"
  "p_paddr (ram (header_loaded huge_board m)) 0x80010054 = 0x80101000"
  "p_filesz (ram (header_loaded huge_board m)) 0x80010054 = 0xFFFFFFFF"
  by (simp_all add: p_offset_def p_paddr_def p_filesz_def ram_header_loaded dma_read_def
      huge_board_def sample_board_def image_of_def sample_bytes_def load32_def image_base_def)

lemma huge_segment_after:
  "p_paddr (after_transfer huge_board 0x80010054 (header_loaded huge_board m)) 0x80010054 = 0x80101000"
  "p_filesz (after_transfer huge_board 0x80010054 (header_loaded huge_board m)) 0x80010054 = 0xFFFFFFFF"
  by (simp_all add: after_transfer_def p_offset_def p_paddr_def p_filesz_def
      ram_header_loaded dma_read_def huge_board_def sample_board_def image_of_def sample_bytes_def
      load32_def image_base_def)

text \<open>
  C6 as stated fails in two ways. On the cartridge whose segment lands on its own
  descriptor, the transfer goes to the descriptor's address with length 24, and the cache
  maintenance that follows is given address 0 and length 0. On the cartridge with
  file size \<open>0xFFFFFFFF\<close> both lengths wrap to 0, which is not the file size rounded up
  to a multiple of 2 or of 4.
\<close>

theorem load_segment_overlap_flush_elsewhere:
  "locate_segment overlap_board (header_loaded overlap_board blank_ram) = Some 0x80010034 \<and>
   p_paddr (ram (header_loaded overlap_board blank_ram)) 0x80010034 = 0x80010034 \<and>
   (p_filesz (ram (header_loaded overlap_board blank_ram)) 0x80010034 + 3) AND NOT 3 = 24 \<and>
   trace (load_segment overlap_board 0x80010034 (header_loaded overlap_board blank_ram)) =
     trace (header_loaded overlap_board blank_ram) @
     [Dma (At 0x80010034) 0xB0102000 24, CacheWritebackInvalidate (At 0) 0] \<and>
   locate_segment huge_board (header_loaded huge_board blank_ram) = Some 0x80010054 \<and>
   unat (p_filesz (ram (header_loaded huge_board blank_ram)) 0x80010054) = 4294967295 \<and>
   trace (load_segment huge_board 0x80010054 (header_loaded huge_board blank_ram)) =
     trace (header_loaded huge_board blank_ram) @
     [Dma (At 0x80101000) 0xB0101080 0, CacheWritebackInvalidate (At 0x80101000) 0]"
  by (simp add: locate_overlap overlap_segment trace_load_segment_after overlap_segment_after
      locate_huge huge_segment huge_segment_after image_base_def)

section \<open>The call of the entry point\<close>

text \<open>The store after the load depends only on the store before it.\<close>

lemma ram_load_segment_cong:
  "ram s = ram s' \<Longrightarrow> ram (load_segment b phdr s) = ram (load_segment b phdr s')"
  by (simp add: ram_load_segment after_transfer_def)

lemma ram_report_segment [simp]: "ram (report_segment phdr s) = ram s"
  by (simp add: report_segment_def)

lemma load32_dma_read_inside:
  assumes "\<forall>j<4. a + of_nat j - dst < len"
  shows "load32 (dma_read c m dst src len) a = load32 c (src + (a - dst))"
  using assms [rule_format, of 0] assms [rule_format, of 1] assms [rule_format, of 2]
    assms [rule_format, of 3]
  by (simp add: load32_def dma_read_def algebra_simps)

lemma e_entry_header_loaded:
  "e_entry (ram (header_loaded b m)) (hdrbuf b) = load32 (cart b) (image_base + 24)"
proof -
  have "hdrbuf b + 24 + of_nat j - hdrbuf b < 256" if "j < 4" for j
  proof -
    have "hdrbuf b + 24 + of_nat j - hdrbuf b = (of_nat (24 + j) :: u32)"
      by simp
    moreover have "(of_nat (24 + j) :: u32) < 256"
      using that by (intro of_nat_less_256) simp
    ultimately show ?thesis by (simp only:)
  qed
  then have "load32 (dma_read (cart b) m (hdrbuf b) image_base 256) (hdrbuf b + 24) =
             load32 (cart b) (image_base + (hdrbuf b + 24 - hdrbuf b))"
    by (intro load32_dma_read_inside) blast
  then show ?thesis
    by (simp add: e_entry_def ram_header_loaded)
qed

lemma load32_memset_outside:
  "\<not> a - p < n \<Longrightarrow> \<not> a + 1 - p < n \<Longrightarrow> \<not> a + 2 - p < n \<Longrightarrow> \<not> a + 3 - p < n \<Longrightarrow>
   load32 (memset m p c n) a = load32 m a"
  by (simp add: load32_def memset_def)

lemma load32_dma_read_outside:
  "\<not> a - dst < len \<Longrightarrow> \<not> a + 1 - dst < len \<Longrightarrow> \<not> a + 2 - dst < len \<Longrightarrow>
   \<not> a + 3 - dst < len \<Longrightarrow> load32 (dma_read c m dst src len) a = load32 m a"
  by (simp add: load32_def dma_read_def)

lemma sample_entry_word: "load32 (ram (header_loaded sample_board m)) 0x80010018 = 0x80101000"
  by (simp add: ram_header_loaded dma_read_def sample_board_def image_of_def
      sample_bytes_def load32_def image_base_def)

lemma sample_entry_after_load:
  "e_entry (ram (load_segment sample_board 0x80010054 (header_loaded sample_board m))) 0x80010000
     = 0x80101000"
proof -
  let ?h = "header_loaded sample_board m"
  have "ram (load_segment sample_board 0x80010054 ?h) =
        memset (after_transfer sample_board 0x80010054 ?h) 0x80101005 0 7"
    by (simp add: ram_load_segment sample_segment_kept)
  moreover have "after_transfer sample_board 0x80010054 ?h =
        dma_read (cart sample_board) (ram ?h) 0x80101000 0xB0101080 6"
    by (simp add: after_transfer_def sample_segment image_base_def)
  ultimately have "e_entry (ram (load_segment sample_board 0x80010054 ?h)) 0x80010000 =
        load32 (memset (dma_read (cart sample_board) (ram ?h) 0x80101000 0xB0101080 6)
                  0x80101005 0 7) 0x80010018"
    by (simp add: e_entry_def)
  also have "\<dots> = load32 (dma_read (cart sample_board) (ram ?h) 0x80101000 0xB0101080 6) 0x80010018"
    by (rule load32_memset_outside) simp_all
  also have "\<dots> = load32 (ram ?h) 0x80010018"
    by (rule load32_dma_read_outside) simp_all
  finally show ?thesis
    by (simp add: sample_entry_word)
qed

text \<open>
  C8. Whenever the run reaches the call, its target is the address that line 242 reads
  from the entry field of the header buffer after the segment has been loaded; when the
  load leaves that field as the header transfer wrote it, this is the entry word of the
  image on the cartridge. The argument count is 4, the number of entries of the argument
  table; the table holds \<^verbatim>\<open>hello\<close>, the address of the buffer, the address 128
  bytes into the buffer and \<^verbatim>\<open>root=/dev/n64cart\<close>; the environment table holds
  only its null terminator; the fourth argument is null. At that moment the two
  addresses hold the two records.
\<close>

theorem transfer_arguments:
  "boot b m = Some (Transfer s c) \<Longrightarrow>
   (\<exists>phdr. locate_segment b (header_loaded b m) = Some phdr \<and>
      entry c = e_entry (ram (load_segment b phdr (header_loaded b m))) (hdrbuf b) \<and>
      (e_entry (ram (load_segment b phdr (header_loaded b m))) (hdrbuf b) =
         e_entry (ram (header_loaded b m)) (hdrbuf b) \<longrightarrow>
       entry c = load32 (cart b) (image_base + 24))) \<and>
   argc c = 4 \<and> argc c = int (length (argv c)) \<and>
   argv c = [Str ''hello'', Ptr (hdrbuf b), Ptr (hdrbuf b + 128), Str ''root=/dev/n64cart''] \<and>
   envp c = [Null] \<and> reserved c = Null \<and>
   c_string (ram s) (hdrbuf b) = ''n64cart.start='' @ dec (unat (image_base + diskoff s)) \<and>
   c_string (ram s) (hdrbuf b + 128) = ''n64cart.size='' @ dec (unat (disksize s))"
proof -
  assume "boot b m = Some (Transfer s c)"
  then obtain phdr s0 where found: "locate_segment b s0 = Some phdr"
    and s0: "s0 = emit (validate b (header_loaded b m)) (header_loaded b m)"
    and seg: "boot_segment b phdr s0 = Transfer s c"
    by (rule boot_transfer_cases)
  let ?l = "load_segment b phdr (report_segment phdr s0)"
  from seg have s: "s = emit [Log ''Jumping: %p\<newline>'' [e_entry (ram ?l) (hdrbuf b)],
        ConsoleRender, WaitMs 1024, DisableInterrupts, SetVIInterrupt 0 0]
        (write_metadata b (emit [Log ''Entry: %p\<newline>'' [e_entry (ram ?l) (hdrbuf b)]] ?l))"
    and c: "c = \<lparr>entry = e_entry (ram ?l) (hdrbuf b), argc = 4, argv = args b, envp = env,
        reserved = Null\<rparr>"
    unfolding boot_segment_form by simp_all
  have "ram (report_segment phdr s0) = ram (header_loaded b m)"
    by (simp add: s0)
  then have same: "ram ?l = ram (load_segment b phdr (header_loaded b m))"
    by (rule ram_load_segment_cong)
  have target: "entry c = e_entry (ram (load_segment b phdr (header_loaded b m))) (hdrbuf b)"
    by (subst c) (simp add: same)
  have located: "locate_segment b (header_loaded b m) = Some phdr"
    using found by (simp add: s0)
  have "argc c = 4" "argv c = args b" "envp c = env" "reserved c = Null"
    by (subst c, simp)+
  moreover have "c_string (ram s) (hdrbuf b) = start_record s"
    unfolding s by (simp add: c_string_lower start_record_def)
  moreover have "c_string (ram s) (hdrbuf b + 128) = size_record s"
    unfolding s by (simp add: c_string_upper size_record_def)
  moreover have "\<exists>phdr. locate_segment b (header_loaded b m) = Some phdr \<and>
      entry c = e_entry (ram (load_segment b phdr (header_loaded b m))) (hdrbuf b) \<and>
      (e_entry (ram (load_segment b phdr (header_loaded b m))) (hdrbuf b) =
         e_entry (ram (header_loaded b m)) (hdrbuf b) \<longrightarrow>
       entry c = load32 (cart b) (image_base + 24))"
    using located target by (auto simp: e_entry_header_loaded)
  ultimately show ?thesis
    by (simp add: args_def env_def start_record_def size_record_def)
qed

theorem transfer_arguments_witness:
  "\<exists>s c. boot sample_board blank_ram = Some (Transfer s c) \<and> entry c = 0x80101000 \<and>
     load32 (cart sample_board) (image_base + 24) = 0x80101000 \<and>
     argc c = 4 \<and>
     argv c = [Str ''hello'', Ptr 0x80010000, Ptr 0x80010080, Str ''root=/dev/n64cart''] \<and>
     envp c = [Null] \<and> reserved c = Null"
proof -
  from boot_sample obtain s c where run: "boot sample_board blank_ram = Some (Transfer s c)"
    by blast
  note call = transfer_arguments [OF run]
  from call obtain phdr
    where "locate_segment sample_board (header_loaded sample_board blank_ram) = Some phdr"
      and "entry c =
        e_entry (ram (load_segment sample_board phdr (header_loaded sample_board blank_ram)))
          (hdrbuf sample_board)"
    by blast
  then have target: "entry c = 0x80101000"
    by (simp add: locate_sample hdrbuf_sample sample_entry_after_load)
  have word: "load32 (cart sample_board) (image_base + 24) = 0x80101000"
    by (simp add: sample_board_def image_of_def sample_bytes_def load32_def image_base_def)
  from call have "argc c = 4 \<and>
     argv c = [Str ''hello'', Ptr 0x80010000, Ptr 0x80010080, Str ''root=/dev/n64cart''] \<and>
     envp c = [Null] \<and> reserved c = Null"
    by (simp add: hdrbuf_sample)
  with run target word show ?thesis
    by blast
qed

section \<open>The packaging tool\<close>








lemma byte_masks:
  "(0xFF000000 :: u32) = push_bit 24 (mask 8)" "(0x00FF0000 :: u32) = push_bit 16 (mask 8)"
  "(0x0000FF00 :: u32) = push_bit 8 (mask 8)" "(0x000000FF :: u32) = mask 8"
  by (simp_all add: mask_eq_exp_minus_1)

lemma bswap_32_byte:
  "(ucast (bswap_32 x) :: u8) = ucast (drop_bit 24 x)"
  "(ucast (drop_bit 8 (bswap_32 x)) :: u8) = ucast (drop_bit 16 x)"
  "(ucast (drop_bit 16 (bswap_32 x)) :: u8) = ucast (drop_bit 8 x)"
  "(ucast (drop_bit 24 (bswap_32 x)) :: u8) = ucast x"
  unfolding bswap_32_def byte_masks
  by (rule bit_word_eqI; auto simp: bit_simps)+


lemma bswap_32_bytes:
  "object_bytes LittleEndian (bswap_32 x) = object_bytes BigEndian x"
  "object_bytes BigEndian (bswap_32 x) = object_bytes LittleEndian x"
  by (simp_all add: bswap_32_byte)






end
